theory Spec2Isabelle
  imports Complex_Main "HOL-Library.Sublist" "HOL-Library.Log_Nat"
begin

section \<open>Python values used by the program\<close>

text \<open>
  A Python \<open>float\<close> is an IEEE double and is represented by the real number it denotes;
  the literals \<open>0.1\<close> and \<open>100\<close> are read as the reals \<open>1/10\<close> and \<open>100\<close>. Comparisons of
  floats are exact, so the threshold tests of the classifier are the comparisons of these
  reals. Division and multiplication round their exact result to the nearest double
  (\<open>binary64\<close> below). A Python \<open>str\<close> is a \<open>string\<close>; the three emoji of the reply
  catalogue are written as their UTF-8 bytes.
\<close>

datatype py_error = IndexError | KeyError | ZeroDivisionError

text \<open>\<open>round(x)\<close> to an integer: to the nearest one, a tie going to the even neighbour.\<close>

definition py_round_int :: "real \<Rightarrow> int" where
  "py_round_int x =
     (let f = \<lfloor>x\<rfloor>; d = x - of_int f
      in if d < 1 / 2 then f else if 1 / 2 < d then f + 1 else if even f then f else f + 1)"

text \<open>\<open>round(x, ndigits)\<close> on a float: the decimal with \<open>ndigits\<close> digits after the point
  nearest to the real that \<open>x\<close> denotes, a tie going to the even last digit. The float
  that Python returns for it is the double nearest to this decimal; it is represented by
  the decimal.\<close>

definition py_round :: "real \<Rightarrow> nat \<Rightarrow> real" where
  "py_round x ndigits = of_int (py_round_int (x * 10 ^ ndigits)) / 10 ^ ndigits"

text \<open>The binary exponent of a positive real \<open>x\<close>: the integer \<open>e\<close> with
  \<open>2 ^ e \<le> x < 2 ^ (e + 1)\<close>.\<close>

definition floor_log2 :: "real \<Rightarrow> int" where
  "floor_log2 x = (if 1 \<le> x then bitlen \<lfloor>x\<rfloor> - 1 else - bitlen (\<lceil>1 / x\<rceil> - 1))"

text \<open>The double nearest to a real, a tie going to the even significand: 53 significant
  bits, the exponent not below -1022 (subnormal numbers). The overflow of magnitudes
  beyond the largest double is left out: the program divides a count by a total that is
  at least the count, and multiplies the quotient by 100.\<close>

definition binary64 :: "real \<Rightarrow> real" where
  "binary64 x =
     (if x = 0 then 0
      else let e = max (floor_log2 \<bar>x\<bar>) (- 1022); ulp = 2 powi (e - 52)
           in sgn x * of_int (py_round_int (\<bar>x\<bar> / ulp)) * ulp)"

text \<open>\<open>a / b\<close> on two \<open>int\<close>s: the double nearest to the exact quotient, and
  \<open>ZeroDivisionError\<close> when \<open>b\<close> is zero. \<open>x * y\<close> on floats: the double nearest to the
  exact product.\<close>

definition py_truediv :: "int \<Rightarrow> int \<Rightarrow> py_error + real" where
  "py_truediv a b =
     (if b = 0 then Inl ZeroDivisionError else Inr (binary64 (of_int a / of_int b)))"

definition float_mul :: "real \<Rightarrow> real \<Rightarrow> real" where
  "float_mul x y = binary64 (x * y)"

text \<open>A dictionary literal is an association list; \<open>d[k]\<close> raises \<open>KeyError\<close> on a
  missing key, \<open>d.get(k, default)\<close> does not.\<close>

definition dict_subscript :: "('k \<times> 'v) list \<Rightarrow> 'k \<Rightarrow> py_error + 'v" where
  "dict_subscript d k = (case map_of d k of None \<Rightarrow> Inl KeyError | Some v \<Rightarrow> Inr v)"

definition dict_get :: "('k \<times> 'v) list \<Rightarrow> 'k \<Rightarrow> 'v \<Rightarrow> 'v" where
  "dict_get d k dflt = (case map_of d k of None \<Rightarrow> dflt | Some v \<Rightarrow> v)"

text \<open>\<open>random.choice(seq)\<close> returns \<open>seq[i]\<close> for an index \<open>i\<close> below \<open>len(seq)\<close> drawn by
  the generator, and raises \<open>IndexError\<close> on an empty sequence. The generator's draw is
  the argument \<open>rnd\<close>, reduced below the length.\<close>

definition random_choice :: "nat \<Rightarrow> 'a list \<Rightarrow> py_error + 'a" where
  "random_choice rnd seq = (if seq = [] then Inl IndexError else Inr (seq ! (rnd mod length seq)))"

text \<open>\<open>word in s\<close> on strings is \<^const>\<open>sublist\<close>: \<open>s\<close> has \<open>word\<close> as a contiguous part.
  \<open>str.lower\<close> depends on the Unicode case tables of the interpreter; the functions below
  take it as the argument \<open>lower\<close>, and \<open>ascii_lower\<close> is its restriction to ASCII text.\<close>

definition ascii_lower_char :: "char \<Rightarrow> char" where
  "ascii_lower_char c =
     (case map_of (zip ''ABCDEFGHIJKLMNOPQRSTUVWXYZ'' ''abcdefghijklmnopqrstuvwxyz'') c of
        None \<Rightarrow> c
      | Some l \<Rightarrow> l)"

definition ascii_lower :: "string \<Rightarrow> string" where
  "ascii_lower s = map ascii_lower_char s"


section \<open>\<open>app/sentiment.py\<close>: \<open>SentimentAnalyzer\<close>\<close>

text \<open>Lines 28 to 33 of \<open>analyze_sentiment\<close>: the label of a polarity.\<close>

definition classify :: "real \<Rightarrow> string" where
  "classify polarity =
     (if polarity > 1 / 10 then ''positive''
      else if polarity < - (1 / 10) then ''negative''
      else ''neutral'')"

text \<open>\<open>analyze_sentiment\<close>. The polarity is computed by the TextBlob library, which is
  not part of the program: \<open>textblob_polarity\<close> stands for
  \<open>TextBlob(text).sentiment.polarity\<close>.\<close>

definition analyze_sentiment :: "(string \<Rightarrow> real) \<Rightarrow> string \<Rightarrow> string \<times> real" where
  "analyze_sentiment textblob_polarity text =
     (let polarity = textblob_polarity text
      in (classify polarity, py_round polarity 4))"

definition smiling_face :: string where
  "smiling_face = [CHR 0xF0, CHR 0x9F, CHR 0x98, CHR 0x8A]"

definition blue_heart :: string where
  "blue_heart = [CHR 0xF0, CHR 0x9F, CHR 0x92, CHR 0x99]"

definition waving_hand :: string where
  "waving_hand = [CHR 0xF0, CHR 0x9F, CHR 0x91, CHR 0x8B]"

definition positive_responses :: "string list" where
  "positive_responses =
     [''That's wonderful! I'm glad you're feeling positive! '' @ smiling_face,
      ''I love your enthusiasm! How can I help you further?'',
      ''Great to hear such positivity! What else can I do for you?'',
      ''Your positive energy is contagious! What's on your mind?'',
      ''That's fantastic! I'm here to keep that good mood going!'']"

definition negative_responses :: "string list" where
  "negative_responses =
     [''I'm sorry to hear that. I'm here to help you feel better. '' @ blue_heart,
      ''I understand this might be difficult. Let's work through it together.'',
      ''I hear you. Sometimes things can be tough. How can I assist you?'',
      ''I'm here for you. Would you like to talk more about it?'',
      ''I appreciate you sharing that with me. Let's find a way to help.'']"

definition neutral_responses :: "string list" where
  "neutral_responses =
     [''I understand. How can I assist you today?'',
      ''Got it! What would you like to know?'',
      ''I'm listening. Please tell me more.'',
      ''Alright! What can I help you with?'',
      ''I see. What's your next question?'']"

definition responses :: "(string \<times> string list) list" where
  "responses =
     [(''positive'', positive_responses),
      (''negative'', negative_responses),
      (''neutral'', neutral_responses)]"

definition help_suffix :: string where
  "help_suffix = '' I'm here to assist you with any questions or concerns you may have.''"

definition thanks_response :: string where
  "thanks_response = ''You're very welcome! It's my pleasure to help you. '' @ smiling_face"

definition goodbye_response :: string where
  "goodbye_response = ''Goodbye! Feel free to return anytime. Have a great day! '' @ waving_hand"

definition hello_response :: string where
  "hello_response = ''Hello! Nice to meet you! How can I brighten your day? '' @ smiling_face"

text \<open>\<open>any(word in message_lower for word in words)\<close>.\<close>

definition any_word_in :: "string list \<Rightarrow> string \<Rightarrow> bool" where
  "any_word_in words message_lower = list_ex (\<lambda>word. sublist word message_lower) words"

text \<open>\<open>generate_response(message, sentiment)\<close>, with the case function \<open>lower\<close> and the
  generator's draw \<open>rnd\<close> as arguments.\<close>

definition generate_response :: "(string \<Rightarrow> string) \<Rightarrow> nat \<Rightarrow> string \<Rightarrow> string \<Rightarrow> py_error + string" where
  "generate_response lower rnd message sentiment =
     (case dict_subscript responses ''neutral'' of
        Inl e \<Rightarrow> Inl e
      | Inr neutral_list \<Rightarrow>
          (let response_list = dict_get responses sentiment neutral_list
           in case random_choice rnd response_list of
                Inl e \<Rightarrow> Inl e
              | Inr base_response \<Rightarrow>
                  (let message_lower = lower message
                   in if any_word_in [''help'', ''support'', ''assist''] message_lower
                        then Inr (base_response @ help_suffix)
                      else if any_word_in [''thank'', ''thanks'', ''appreciate''] message_lower
                        then Inr thanks_response
                      else if any_word_in [''bye'', ''goodbye'', ''see you''] message_lower
                        then Inr goodbye_response
                      else if any_word_in [''hello'', ''hi'', ''hey''] message_lower
                        then Inr hello_response
                      else Inr base_response)))"



section \<open>\<open>app/sentiment.py\<close>: \<open>SentimentStats\<close>\<close>

text \<open>The columns of a \<open>ChatMessage\<close> row that the statistics read: the stored label, a
  string of at most 20 characters, and the time the row was written. A \<open>datetime\<close> is
  the number of microseconds since the first instant of the calendar.\<close>

record chat_message =
  sentiment :: string
  timestamp :: int

record statistics =
  total :: nat
  positive :: nat
  negative :: nat
  neutral :: nat
  positive_percent :: real
  negative_percent :: real
  neutral_percent :: real

text \<open>\<open>sum(1 for msg in messages if msg.sentiment == label)\<close>.\<close>

definition count_label :: "string \<Rightarrow> chat_message list \<Rightarrow> nat" where
  "count_label label messages =
     sum_list (map (\<lambda>msg. 1) (filter (\<lambda>msg. sentiment msg = label) messages))"

text \<open>\<open>round((count / total) * 100, 1)\<close>.\<close>

definition percent :: "nat \<Rightarrow> nat \<Rightarrow> py_error + real" where
  "percent count n =
     (case py_truediv (int count) (int n) of
        Inl e \<Rightarrow> Inl e
      | Inr q \<Rightarrow> Inr (py_round (float_mul q 100) 1))"

definition calculate_statistics :: "chat_message list \<Rightarrow> py_error + statistics" where
  "calculate_statistics messages =
     (if messages = [] then
        Inr \<lparr>total = 0, positive = 0, negative = 0, neutral = 0,
             positive_percent = 0, negative_percent = 0, neutral_percent = 0\<rparr>
      else
        (case percent (count_label ''positive'' messages) (length messages) of
           Inl e \<Rightarrow> Inl e
         | Inr pp \<Rightarrow>
             (case percent (count_label ''negative'' messages) (length messages) of
                Inl e \<Rightarrow> Inl e
              | Inr np \<Rightarrow>
                  (case percent (count_label ''neutral'' messages) (length messages) of
                     Inl e \<Rightarrow> Inl e
                   | Inr up \<Rightarrow>
                       Inr \<lparr>total = length messages,
                            positive = count_label ''positive'' messages,
                            negative = count_label ''negative'' messages,
                            neutral = count_label ''neutral'' messages,
                            positive_percent = pp, negative_percent = np,
                            neutral_percent = up\<rparr>))))"


section \<open>\<open>routes.py\<close>: \<open>analytics_timeline\<close>\<close>

text \<open>
  \<open>timedelta(days=d)\<close> is \<open>d\<close> days of microseconds. The string
  \<open>t.strftime('%Y-%m-%d')\<close> names the calendar day of \<open>t\<close> and nothing else; it is
  represented by the number of that day, counted from the first day of the calendar.
\<close>

definition timedelta_days :: "int \<Rightarrow> int" where
  "timedelta_days d = d * 86400000000"

definition strftime_date :: "int \<Rightarrow> int" where
  "strftime_date t = t div 86400000000"

text \<open>The dictionary literal \<open>{'positive': 0, 'negative': 0, 'neutral': 0}\<close>.\<close>

definition zero_counts :: "string \<rightharpoonup> nat" where
  "zero_counts = [''positive'' \<mapsto> 0, ''negative'' \<mapsto> 0, ''neutral'' \<mapsto> 0]"

text \<open>The loop over the queried messages. \<open>daily_sentiment[date_key][msg.sentiment] += 1\<close>
  raises \<open>KeyError\<close> when the label is not a key of the day's dictionary.\<close>

fun group_by_date ::
  "(int \<rightharpoonup> (string \<rightharpoonup> nat)) \<Rightarrow> chat_message list \<Rightarrow> py_error + (int \<rightharpoonup> (string \<rightharpoonup> nat))" where
  "group_by_date daily_sentiment [] = Inr daily_sentiment"
| "group_by_date daily_sentiment (msg # messages) =
     (let date_key = strftime_date (timestamp msg);
          daily = (if daily_sentiment date_key = None
                   then daily_sentiment(date_key \<mapsto> zero_counts)
                   else daily_sentiment)
      in case daily date_key of
           None \<Rightarrow> Inl KeyError
         | Some day_counts \<Rightarrow>
             (case day_counts (sentiment msg) of
                None \<Rightarrow> Inl KeyError
              | Some n \<Rightarrow>
                  group_by_date
                    (daily(date_key \<mapsto> day_counts(sentiment msg \<mapsto> n + 1))) messages))"

record timeline_data =
  dates :: "int list"
  positive_counts :: "nat list"
  negative_counts :: "nat list"
  neutral_counts :: "nat list"

text \<open>The route calls \<open>datetime.utcnow()\<close> eight times in one request: once for
  \<open>week_ago\<close> and once in each of the seven rounds of the loop. \<open>utcnow k\<close> is the value
  of call number \<open>k\<close>, counted from 0: call 0 is the one for \<open>week_ago\<close>, call \<open>i + 1\<close>
  the one in round \<open>i\<close> of the loop.

  The loop \<open>for i in range(7)\<close>, over the list of its indices, appending to the four
  arrays.\<close>

fun last_days ::
  "(nat \<Rightarrow> int) \<Rightarrow> (int \<rightharpoonup> (string \<rightharpoonup> nat)) \<Rightarrow> nat list \<Rightarrow> timeline_data
     \<Rightarrow> py_error + timeline_data" where
  "last_days utcnow daily_sentiment [] arrays = Inr arrays"
| "last_days utcnow daily_sentiment (i # indices) arrays =
     (let date = strftime_date (utcnow (Suc i) - timedelta_days (6 - int i));
          sentiment_data = (case daily_sentiment date of None \<Rightarrow> zero_counts | Some c \<Rightarrow> c)
      in case sentiment_data ''positive'' of
           None \<Rightarrow> Inl KeyError
         | Some p \<Rightarrow>
             (case sentiment_data ''negative'' of
                None \<Rightarrow> Inl KeyError
              | Some n \<Rightarrow>
                  (case sentiment_data ''neutral'' of
                     None \<Rightarrow> Inl KeyError
                   | Some u \<Rightarrow>
                       last_days utcnow daily_sentiment indices
                         \<lparr>dates = dates arrays @ [date],
                          positive_counts = positive_counts arrays @ [p],
                          negative_counts = negative_counts arrays @ [n],
                          neutral_counts = neutral_counts arrays @ [u]\<rparr>)))"

text \<open>The body of the \<open>try\<close> block. The query keeps the rows of the current user written
  at \<open>week_ago\<close> or later; \<open>messages\<close> are the rows of the current user.\<close>

definition timeline_body :: "(nat \<Rightarrow> int) \<Rightarrow> chat_message list \<Rightarrow> py_error + timeline_data" where
  "timeline_body utcnow messages =
     (let week_ago = utcnow 0 - timedelta_days 7
      in case group_by_date Map.empty (filter (\<lambda>msg. timestamp msg \<ge> week_ago) messages) of
           Inl e \<Rightarrow> Inl e
         | Inr daily_sentiment \<Rightarrow>
             last_days utcnow daily_sentiment [0..<7]
               \<lparr>dates = [], positive_counts = [], negative_counts = [], neutral_counts = []\<rparr>)"

text \<open>The route: the JSON body on success, and on any exception the error body with
  status 500.\<close>

datatype timeline_response = Success timeline_data | Failure string nat

definition analytics_timeline :: "(nat \<Rightarrow> int) \<Rightarrow> chat_message list \<Rightarrow> timeline_response" where
  "analytics_timeline utcnow messages =
     (case timeline_body utcnow messages of
        Inl e \<Rightarrow> Failure ''Failed to load timeline data'' 500
      | Inr data \<Rightarrow> Success data)"


section \<open>The polarity scorer of the specification\<close>

text \<open>Modelled from the spec: the whitespace that separates the words of a text. The
  program leaves the splitting of the text to the TextBlob library, which is not among
  its sources.\<close>

definition is_space :: "char \<Rightarrow> bool" where
  "is_space c \<longleftrightarrow> c \<in> set [CHR '' '', CHR 0x09, CHR 0x0A, CHR 0x0B, CHR 0x0C, CHR 0x0D]"

text \<open>Modelled from the spec: the scorer "tokenizes into words". \<open>split_words w cs\<close>
  cuts \<open>cs\<close> at whitespace, \<open>w\<close> being the word read so far.\<close>

fun split_words :: "string \<Rightarrow> string \<Rightarrow> string list" where
  "split_words w [] = (if w = [] then [] else [w])"
| "split_words w (c # cs) =
     (if is_space c then (if w = [] then split_words [] cs else w # split_words [] cs)
      else split_words (w @ [c]) cs)"

text \<open>Modelled from the spec: the tokens of a text.\<close>

definition tokenize :: "string \<Rightarrow> string list" where
  "tokenize text = split_words [] text"

text \<open>Modelled from the spec: "adjacent negation words invert the polarity contribution
  of the following sentiment-bearing token; adjacent intensifiers scale it up".
  \<open>previous\<close> is the token just before; the negation words and the factor of each
  intensifier are arguments, as the specification names only examples of them.\<close>

definition adjust :: "string list \<Rightarrow> (string \<rightharpoonup> real) \<Rightarrow> string option \<Rightarrow> real \<Rightarrow> real" where
  "adjust negations intensifiers previous p =
     (case previous of
        None \<Rightarrow> p
      | Some w \<Rightarrow>
          if w \<in> set negations then - p
          else (case intensifiers w of None \<Rightarrow> p | Some k \<Rightarrow> k * p))"

text \<open>Modelled from the spec: the contributions of the sentiment-bearing tokens, in
  order. The lexicon gives each recognized token its polarity; a token it does not
  know contributes nothing. The lexicon is an argument: the specification does not
  list it.\<close>

fun contributions ::
  "(string \<rightharpoonup> real) \<Rightarrow> string list \<Rightarrow> (string \<rightharpoonup> real) \<Rightarrow> string option \<Rightarrow> string list \<Rightarrow> real list" where
  "contributions lexicon negations intensifiers previous [] = []"
| "contributions lexicon negations intensifiers previous (t # ts) =
     (case lexicon t of
        None \<Rightarrow> contributions lexicon negations intensifiers (Some t) ts
      | Some p \<Rightarrow>
          adjust negations intensifiers previous p
            # contributions lexicon negations intensifiers (Some t) ts)"

text \<open>Modelled from the spec: "clamped to [-1, 1]".\<close>

definition clamp :: "real \<Rightarrow> real" where
  "clamp x = max (- 1) (min 1 x)"

text \<open>Modelled from the spec: the polarity scorer of section 4.1, which stands for the
  call \<open>TextBlob(text).sentiment.polarity\<close> of the program: the average of the
  contributions, clamped, and exactly 0 when no token is sentiment-bearing. The rounding
  to four decimals is done by \<open>analyze_sentiment\<close>.\<close>

definition polarity_scorer ::
  "(string \<rightharpoonup> real) \<Rightarrow> string list \<Rightarrow> (string \<rightharpoonup> real) \<Rightarrow> string \<Rightarrow> real" where
  "polarity_scorer lexicon negations intensifiers text =
     (let cs = contributions lexicon negations intensifiers None (tokenize text)
      in if cs = [] then 0 else clamp (sum_list cs / real (length cs)))"

text \<open>A small lexicon and two intensifiers for the examples.\<close>

definition example_lexicon :: "string \<rightharpoonup> real" where
  "example_lexicon = [''good'' \<mapsto> 7 / 10, ''bad'' \<mapsto> - (7 / 10), ''great'' \<mapsto> 4 / 5]"

definition example_intensifiers :: "string \<rightharpoonup> real" where
  "example_intensifiers = [''very'' \<mapsto> 13 / 10, ''extremely'' \<mapsto> 3 / 2]"


section \<open>Invariants and example data\<close>

text \<open>The invariant of the grouping loop: every day's dictionary has exactly the three
  label keys. \<open>day_count\<close> reads one counter, 0 where the day has no dictionary.\<close>

definition day_dicts_ok :: "(int \<rightharpoonup> (string \<rightharpoonup> nat)) \<Rightarrow> bool" where
  "day_dicts_ok daily \<longleftrightarrow>
     (\<forall>d c. daily d = Some c \<longrightarrow> dom c = {''positive'', ''negative'', ''neutral''})"

definition day_count :: "(int \<rightharpoonup> (string \<rightharpoonup> nat)) \<Rightarrow> int \<Rightarrow> string \<Rightarrow> nat" where
  "day_count daily d l =
     (case daily d of None \<Rightarrow> 0 | Some c \<Rightarrow> (case c l of None \<Rightarrow> 0 | Some n \<Rightarrow> n))"

text \<open>The date that round \<open>i\<close> of the loop computes from its own reading of the clock.\<close>

definition loop_date :: "(nat \<Rightarrow> int) \<Rightarrow> nat \<Rightarrow> int" where
  "loop_date utcnow i = strftime_date (utcnow (Suc i)) - (6 - int i)"

text \<open>Clocks for the examples, one microsecond between two readings: a request served
  within day 20, starting at 1728000005000 microseconds; the same request one tick
  earlier; and a request that starts 10 microseconds before the midnight that ends day
  20 and reaches day 21 in the third round of the loop.\<close>

definition clock_within_day :: "nat \<Rightarrow> int" where
  "clock_within_day k = 1728000005000 + int k"

definition clock_one_tick_earlier :: "nat \<Rightarrow> int" where
  "clock_one_tick_earlier k = 1728000004000 + int k"

definition clock_across_midnight :: "nat \<Rightarrow> int" where
  "clock_across_midnight k = (if k \<le> 2 then 1814399999990 + int k else 1814400000000 + int k)"

text \<open>Seven rows for the examples: three rows of day 20, one of day 19, and three of
  days 12 and 13 around the start of the seven-day window of \<open>clock_within_day\<close>.\<close>

definition week_of_messages :: "chat_message list" where
  "week_of_messages =
     [\<lparr>sentiment = ''positive'', timestamp = 1728000000000\<rparr>,
      \<lparr>sentiment = ''negative'', timestamp = 1641600000007\<rparr>,
      \<lparr>sentiment = ''neutral'', timestamp = 1728000000001\<rparr>,
      \<lparr>sentiment = ''angry'', timestamp = 1036800000000\<rparr>,
      \<lparr>sentiment = ''furious'', timestamp = 1123200004000\<rparr>,
      \<lparr>sentiment = ''positive'', timestamp = 1123200006000\<rparr>,
      \<lparr>sentiment = ''positive'', timestamp = 1728000000000\<rparr>]"


section \<open>The classifier\<close>

lemma classify_cases:
  "classify s = ''positive'' \<or> classify s = ''negative'' \<or> classify s = ''neutral''"
  by (simp add: classify_def)

text \<open>
  Claim C1. For every real score, the label is positive exactly when the score exceeds
  0.1, negative exactly when it is below -0.1, and neutral exactly in between, the
  bounds 0.1, -0.1 and the score 0 included. In particular 0.1 and -0.1 are neutral,
  0.1000001 is positive and -0.1000001 is negative. The classifier has no error value:
  its result is always one of the three labels.
\<close>

theorem classify_thresholds:
  "(classify s = ''positive'' \<longleftrightarrow> s > 1 / 10)
   \<and> (classify s = ''negative'' \<longleftrightarrow> s < - (1 / 10))
   \<and> (classify s = ''neutral'' \<longleftrightarrow> - (1 / 10) \<le> s \<and> s \<le> 1 / 10)
   \<and> classify s \<in> {''positive'', ''negative'', ''neutral''}
   \<and> classify (1 / 10) = ''neutral''
   \<and> classify (1000001 / 10000000) = ''positive''
   \<and> classify (- (1 / 10)) = ''neutral''
   \<and> classify (- (1000001 / 10000000)) = ''negative''
   \<and> classify 0 = ''neutral''"
  by (simp add: classify_def)

theorem classify_thresholds_witness:
  "classify (3 / 4) = ''positive'' \<and> classify (- (1 / 2)) = ''negative''
   \<and> classify (1 / 20) = ''neutral''"
  using classify_thresholds [of "3 / 4"] classify_thresholds [of "- (1 / 2)"]
    classify_thresholds [of "1 / 20"]
  by simp

section \<open>The response synthesizer\<close>

lemma responses_neutral: "dict_subscript responses ''neutral'' = Inr neutral_responses"
  by (simp add: dict_subscript_def responses_def)

lemma response_list_cases:
  "dict_get responses label neutral_responses =
     (if label = ''positive'' then positive_responses
      else if label = ''negative'' then negative_responses
      else neutral_responses)"
  by (simp add: dict_get_def responses_def)

lemma response_list_nonempty: "dict_get responses label neutral_responses \<noteq> []"
  unfolding response_list_cases
  by (simp add: positive_responses_def negative_responses_def neutral_responses_def)

lemma random_choice_member:
  "seq \<noteq> [] \<Longrightarrow> \<exists>x. random_choice rnd seq = Inr x \<and> x \<in> set seq"
  by (simp add: random_choice_def)

lemma positive_negative_disjoint: "set positive_responses \<inter> set negative_responses = {}"
  by (simp add: positive_responses_def negative_responses_def)

lemma positive_neutral_disjoint: "set positive_responses \<inter> set neutral_responses = {}"
  by (simp add: positive_responses_def neutral_responses_def)

lemma negative_neutral_disjoint: "set negative_responses \<inter> set neutral_responses = {}"
  by (simp add: negative_responses_def neutral_responses_def)

lemma generate_response_chain:
  assumes "random_choice rnd (dict_get responses label neutral_responses) = Inr base"
  shows "generate_response lower rnd message label =
     Inr (if any_word_in [''help'', ''support'', ''assist''] (lower message)
            then base @ help_suffix
          else if any_word_in [''thank'', ''thanks'', ''appreciate''] (lower message)
            then thanks_response
          else if any_word_in [''bye'', ''goodbye'', ''see you''] (lower message)
            then goodbye_response
          else if any_word_in [''hello'', ''hi'', ''hey''] (lower message)
            then hello_response
          else base)"
  using assms by (simp add: generate_response_def responses_neutral Let_def)

lemma generate_response_base:
  "\<exists>base. random_choice rnd (dict_get responses label neutral_responses) = Inr base
     \<and> base \<in> set (dict_get responses label neutral_responses)"
  using random_choice_member [OF response_list_nonempty] by blast

lemma generate_response_no_keyword:
  assumes "\<not> any_word_in [''help'', ''support'', ''assist''] (lower message)"
    and "\<not> any_word_in [''thank'', ''thanks'', ''appreciate''] (lower message)"
    and "\<not> any_word_in [''bye'', ''goodbye'', ''see you''] (lower message)"
    and "\<not> any_word_in [''hello'', ''hi'', ''hey''] (lower message)"
  shows "\<exists>r. generate_response lower rnd message label = Inr r
     \<and> r \<in> set (dict_get responses label neutral_responses)"
proof -
  obtain base where b: "random_choice rnd (dict_get responses label neutral_responses) = Inr base"
    and m: "base \<in> set (dict_get responses label neutral_responses)"
    using generate_response_base by blast
  have "generate_response lower rnd message label = Inr base"
    using assms by (simp add: generate_response_chain [OF b])
  with m show ?thesis by blast
qed

lemma lower_help_thanks: "ascii_lower ''HELP, thanks'' = ''help, thanks''"
  by (simp add: ascii_lower_def ascii_lower_char_def)

lemma lower_this: "ascii_lower ''This'' = ''this''"
  by (simp add: ascii_lower_def ascii_lower_char_def)

lemma lower_what_now: "ascii_lower ''What now'' = ''what now''"
  by (simp add: ascii_lower_def ascii_lower_char_def)

lemma this_words:
  "sublist ''hi'' ''this''" "\<not> sublist ''help'' ''this''" "\<not> sublist ''support'' ''this''"
  "\<not> sublist ''assist'' ''this''" "\<not> sublist ''thank'' ''this''" "\<not> sublist ''thanks'' ''this''"
  "\<not> sublist ''appreciate'' ''this''" "\<not> sublist ''bye'' ''this''"
  "\<not> sublist ''goodbye'' ''this''" "\<not> sublist ''see you'' ''this''"
  "\<not> sublist ''hello'' ''this''" "\<not> sublist ''hey'' ''this''"
  by (simp_all add: sublist_Cons_right)

lemma what_now_words:
  "\<not> any_word_in [''help'', ''support'', ''assist''] ''what now''"
  "\<not> any_word_in [''thank'', ''thanks'', ''appreciate''] ''what now''"
  "\<not> any_word_in [''bye'', ''goodbye'', ''see you''] ''what now''"
  "\<not> any_word_in [''hello'', ''hi'', ''hey''] ''what now''"
  by (simp_all add: any_word_in_def sublist_Cons_right)

lemma choice_negative_7:
  "random_choice 7 (dict_get responses ''negative'' neutral_responses)
     = Inr ''I hear you. Sometimes things can be tough. How can I assist you?''"
  by (simp add: random_choice_def response_list_cases negative_responses_def)

text \<open>
  Claim C2. For every message and label, the reply is decided by the four keyword rules,
  tried on the lowercased message by plain substring search, in the order
  help/support/assist, thank/thanks/appreciate, bye/goodbye/see you, hello/hi/hey. Only
  the first rule that matches fires: the help rule appends the help sentence to the
  base response drawn from the label's list and no later rule is tried; each of the other
  three replaces the response by its fixed phrase; with no match the base response is
  returned. The search ignores word boundaries: \<open>hi\<close> is found inside \<open>this\<close>.
\<close>

theorem generate_response_rules:
  "\<exists>base. random_choice rnd (dict_get responses label neutral_responses) = Inr base
     \<and> base \<in> set (dict_get responses label neutral_responses)
     \<and> generate_response lower rnd message label =
         Inr (if sublist ''help'' (lower message) \<or> sublist ''support'' (lower message)
                   \<or> sublist ''assist'' (lower message)
                then base @ help_suffix
              else if sublist ''thank'' (lower message) \<or> sublist ''thanks'' (lower message)
                   \<or> sublist ''appreciate'' (lower message)
                then thanks_response
              else if sublist ''bye'' (lower message) \<or> sublist ''goodbye'' (lower message)
                   \<or> sublist ''see you'' (lower message)
                then goodbye_response
              else if sublist ''hello'' (lower message) \<or> sublist ''hi'' (lower message)
                   \<or> sublist ''hey'' (lower message)
                then hello_response
              else base)"
proof -
  obtain base where b: "random_choice rnd (dict_get responses label neutral_responses) = Inr base"
    and m: "base \<in> set (dict_get responses label neutral_responses)"
    using generate_response_base by blast
  show ?thesis
    using b m generate_response_chain [OF b, of lower message]
    by (simp add: any_word_in_def)
qed

theorem generate_response_rules_witness:
  "generate_response ascii_lower 7 ''HELP, thanks'' ''negative''
     = Inr (''I hear you. Sometimes things can be tough. How can I assist you?'' @ help_suffix)
   \<and> generate_response ascii_lower 7 ''This'' ''negative'' = Inr hello_response"
proof -
  have "sublist ''help'' ''help, thanks''"
    by (simp add: sublist_Cons_right)
  then have "generate_response ascii_lower 7 ''HELP, thanks'' ''negative''
     = Inr (''I hear you. Sometimes things can be tough. How can I assist you?'' @ help_suffix)"
    using generate_response_rules [of 7 "''negative''" ascii_lower "''HELP, thanks''"]
    by (simp add: lower_help_thanks choice_negative_7)
  moreover have "generate_response ascii_lower 7 ''This'' ''negative'' = Inr hello_response"
    using generate_response_rules [of 7 "''negative''" ascii_lower "''This''"]
    by (auto simp add: lower_this this_words)
  ultimately show ?thesis by blast
qed

text \<open>
  Claim C7. For every message whose lowercased form contains none of the trigger words,
  the reply for the label positive is one of the five positive templates and is neither
  a negative nor a neutral template; likewise for the labels negative and neutral. Each
  of the three lists has five templates.
\<close>

theorem generate_response_candidates:
  assumes "\<not> any_word_in [''help'', ''support'', ''assist''] (lower message)"
    and "\<not> any_word_in [''thank'', ''thanks'', ''appreciate''] (lower message)"
    and "\<not> any_word_in [''bye'', ''goodbye'', ''see you''] (lower message)"
    and "\<not> any_word_in [''hello'', ''hi'', ''hey''] (lower message)"
  shows "(\<exists>r. generate_response lower rnd message ''positive'' = Inr r
            \<and> r \<in> set positive_responses
            \<and> r \<notin> set negative_responses \<and> r \<notin> set neutral_responses)
       \<and> (\<exists>r. generate_response lower rnd message ''negative'' = Inr r
            \<and> r \<in> set negative_responses
            \<and> r \<notin> set positive_responses \<and> r \<notin> set neutral_responses)
       \<and> (\<exists>r. generate_response lower rnd message ''neutral'' = Inr r
            \<and> r \<in> set neutral_responses
            \<and> r \<notin> set positive_responses \<and> r \<notin> set negative_responses)
       \<and> length positive_responses = 5 \<and> length negative_responses = 5
       \<and> length neutral_responses = 5"
proof -
  have five: "length positive_responses = 5 \<and> length negative_responses = 5
      \<and> length neutral_responses = 5"
    by (simp add: positive_responses_def negative_responses_def neutral_responses_def)
  have pos: "\<exists>r. generate_response lower rnd message ''positive'' = Inr r
      \<and> r \<in> set positive_responses"
    using assms generate_response_no_keyword [of lower message rnd "''positive''"]
    by (simp add: response_list_cases)
  have neg: "\<exists>r. generate_response lower rnd message ''negative'' = Inr r
      \<and> r \<in> set negative_responses"
    using assms generate_response_no_keyword [of lower message rnd "''negative''"]
    by (simp add: response_list_cases)
  have neu: "\<exists>r. generate_response lower rnd message ''neutral'' = Inr r
      \<and> r \<in> set neutral_responses"
    using assms generate_response_no_keyword [of lower message rnd "''neutral''"]
    by (simp add: response_list_cases)
  show ?thesis
    using pos neg neu five positive_negative_disjoint positive_neutral_disjoint
      negative_neutral_disjoint
    by blast
qed

theorem generate_response_candidates_witness:
  "\<not> any_word_in [''help'', ''support'', ''assist''] (ascii_lower ''What now'')
   \<and> \<not> any_word_in [''thank'', ''thanks'', ''appreciate''] (ascii_lower ''What now'')
   \<and> \<not> any_word_in [''bye'', ''goodbye'', ''see you''] (ascii_lower ''What now'')
   \<and> \<not> any_word_in [''hello'', ''hi'', ''hey''] (ascii_lower ''What now'')
   \<and> (\<exists>r. generate_response ascii_lower 8 ''What now'' ''positive'' = Inr r
          \<and> r \<in> set positive_responses
          \<and> r \<notin> set negative_responses \<and> r \<notin> set neutral_responses)
   \<and> (\<exists>r. generate_response ascii_lower 8 ''What now'' ''negative'' = Inr r
          \<and> r \<in> set negative_responses
          \<and> r \<notin> set positive_responses \<and> r \<notin> set neutral_responses)
   \<and> (\<exists>r. generate_response ascii_lower 8 ''What now'' ''neutral'' = Inr r
          \<and> r \<in> set neutral_responses
          \<and> r \<notin> set positive_responses \<and> r \<notin> set negative_responses)"
  using generate_response_candidates [of ascii_lower "''What now''" 8]
    what_now_words [folded lower_what_now]
  by blast

text \<open>
  Claim C10. A label other than positive, negative and neutral raises nothing: the reply
  is the one the label neutral would get, and for a message without trigger words it is
  one of the five neutral templates.
\<close>

theorem generate_response_unknown_label:
  assumes "label \<notin> {''positive'', ''negative'', ''neutral''}"
  shows "(\<exists>r. generate_response lower rnd message label = Inr r)
       \<and> generate_response lower rnd message label
           = generate_response lower rnd message ''neutral''
       \<and> (\<not> any_word_in [''help'', ''support'', ''assist''] (lower message)
            \<and> \<not> any_word_in [''thank'', ''thanks'', ''appreciate''] (lower message)
            \<and> \<not> any_word_in [''bye'', ''goodbye'', ''see you''] (lower message)
            \<and> \<not> any_word_in [''hello'', ''hi'', ''hey''] (lower message)
          \<longrightarrow> (\<exists>r. generate_response lower rnd message label = Inr r
                 \<and> r \<in> set neutral_responses))
       \<and> length neutral_responses = 5"
proof -
  have five: "length neutral_responses = 5"
    by (simp add: neutral_responses_def)
  have l: "dict_get responses label neutral_responses = neutral_responses"
    using assms by (simp add: response_list_cases)
  have n: "dict_get responses ''neutral'' neutral_responses = neutral_responses"
    by (simp add: response_list_cases)
  obtain base where b: "random_choice rnd neutral_responses = Inr base"
    using generate_response_base [of rnd label] l by auto
  have same: "generate_response lower rnd message label
      = generate_response lower rnd message ''neutral''"
    using b by (simp add: generate_response_chain l n)
  have ret: "\<exists>r. generate_response lower rnd message label = Inr r"
    using b by (simp add: generate_response_chain l)
  have mem: "\<exists>r. generate_response lower rnd message label = Inr r \<and> r \<in> set neutral_responses"
    if "\<not> any_word_in [''help'', ''support'', ''assist''] (lower message)"
      "\<not> any_word_in [''thank'', ''thanks'', ''appreciate''] (lower message)"
      "\<not> any_word_in [''bye'', ''goodbye'', ''see you''] (lower message)"
      "\<not> any_word_in [''hello'', ''hi'', ''hey''] (lower message)"
    using that generate_response_no_keyword [of lower message rnd label] l by simp
  show ?thesis
    using same ret mem five by blast
qed

theorem generate_response_unknown_label_witness:
  "''angry'' \<notin> {''positive'', ''negative'', ''neutral''}
   \<and> (\<exists>r. generate_response ascii_lower 8 ''What now'' ''angry'' = Inr r)
   \<and> generate_response ascii_lower 8 ''What now'' ''angry''
       = generate_response ascii_lower 8 ''What now'' ''neutral''
   \<and> (\<exists>r. generate_response ascii_lower 8 ''What now'' ''angry'' = Inr r
          \<and> r \<in> set neutral_responses)"
proof -
  have a: "''angry'' \<notin> {''positive'', ''negative'', ''neutral''}"
    by simp
  note t = generate_response_unknown_label [OF a, of ascii_lower 8 "''What now''"]
  note h = what_now_words [folded lower_what_now]
  show ?thesis
    by (intro conjI, rule a, rule t [THEN conjunct1], rule t [THEN conjunct2, THEN conjunct1],
        rule mp [OF t [THEN conjunct2, THEN conjunct2, THEN conjunct1]], intro conjI h)
qed


section \<open>The float operations\<close>

text \<open>\<open>floor_log2\<close> is the binary exponent of its argument, so \<open>binary64\<close> keeps 53
  significant bits of a normal number; its result is a whole number of units in the last
  place and lies within half a unit of the exact value.\<close>

lemma floor_log2_bounds:
  assumes "0 < x"
  shows "2 powi (floor_log2 x) \<le> x \<and> x < 2 powi (floor_log2 x + 1)"
proof (cases "1 \<le> x")
  case True
  define n where "n = \<lfloor>x\<rfloor>"
  have n: "0 < n"
    using True by (simp add: n_def)
  have b: "1 \<le> bitlen n"
    using n bitlen_eq_zero_iff [of n] bitlen_nonneg [of n] by linarith
  have lo: "(2::int) ^ nat (bitlen n - 1) \<le> n" and hi: "n < 2 ^ nat (bitlen n)"
    using bitlen_bounds [OF n] by simp_all
  have "real_of_int (2 ^ nat (bitlen n - 1)) \<le> real_of_int n"
    using lo by (simp only: of_int_le_iff)
  moreover have "real_of_int n \<le> x"
    by (simp add: n_def)
  moreover have "real_of_int (2 ^ nat (bitlen n - 1)) = 2 ^ nat (bitlen n - 1)"
    by simp
  ultimately have 1: "2 ^ nat (bitlen n - 1) \<le> x"
    by linarith
  have "n + 1 \<le> 2 ^ nat (bitlen n)"
    using hi by simp
  then have "real_of_int (n + 1) \<le> real_of_int (2 ^ nat (bitlen n))"
    by (simp only: of_int_le_iff)
  moreover have "x < real_of_int (n + 1)"
    unfolding n_def by linarith
  moreover have "real_of_int (2 ^ nat (bitlen n)) = 2 ^ nat (bitlen n)"
    by simp
  ultimately have 2: "x < 2 ^ nat (bitlen n)"
    by linarith
  have e: "floor_log2 x = bitlen n - 1"
    using True by (simp add: floor_log2_def n_def)
  show ?thesis
    using 1 2 b by (simp add: e power_int_def)
next
  case False
  define m where "m = \<lceil>1 / x\<rceil> - 1"
  have y: "1 < 1 / x"
    using False assms by simp
  then have m: "0 < m"
    unfolding m_def by linarith
  have b: "1 \<le> bitlen m"
    using m bitlen_eq_zero_iff [of m] bitlen_nonneg [of m] by linarith
  have lo: "(2::int) ^ nat (bitlen m - 1) \<le> m" and hi: "m < 2 ^ nat (bitlen m)"
    using bitlen_bounds [OF m] by simp_all
  have "real_of_int (2 ^ nat (bitlen m - 1)) \<le> real_of_int m"
    using lo by (simp only: of_int_le_iff)
  moreover have "real_of_int m < 1 / x"
    unfolding m_def by linarith
  moreover have "real_of_int (2 ^ nat (bitlen m - 1)) = 2 ^ nat (bitlen m - 1)"
    by simp
  ultimately have 1: "2 ^ nat (bitlen m - 1) < 1 / x"
    by linarith
  have "m + 1 \<le> 2 ^ nat (bitlen m)"
    using hi by simp
  then have "real_of_int (m + 1) \<le> real_of_int (2 ^ nat (bitlen m))"
    by (simp only: of_int_le_iff)
  moreover have "1 / x \<le> real_of_int (m + 1)"
    unfolding m_def by linarith
  moreover have "real_of_int (2 ^ nat (bitlen m)) = 2 ^ nat (bitlen m)"
    by simp
  ultimately have 2: "1 / x \<le> 2 ^ nat (bitlen m)"
    by linarith
  have e: "floor_log2 x = - bitlen m"
    using False by (simp add: floor_log2_def m_def)
  have up: "x < 1 / 2 ^ nat (bitlen m - 1)"
    using 1 assms by (simp add: field_simps)
  have down: "1 / 2 ^ nat (bitlen m) \<le> x"
    using 2 assms by (simp add: field_simps)
  have p1: "(2::real) powi (- bitlen m) = 1 / 2 ^ nat (bitlen m)"
    using b by (simp add: power_int_def field_simps)
  have p2: "(2::real) powi (- bitlen m + 1) = 1 / 2 ^ nat (bitlen m - 1)"
  proof (cases "bitlen m = 1")
    case True
    then show ?thesis by simp
  next
    case False
    then have "nat (bitlen m - 1) = nat (- (- bitlen m + 1))" and "- bitlen m + 1 < 0"
      using b by simp_all
    then show ?thesis
      by (simp add: power_int_def field_simps)
  qed
  show ?thesis
    using up down by (simp only: e p1 p2)
qed

lemma py_round_int_near: "\<bar>real_of_int (py_round_int y) - y\<bar> \<le> 1 / 2"
  unfolding py_round_int_def Let_def by (auto; linarith)

lemma binary64_near:
  assumes "x \<noteq> 0"
  shows "\<bar>binary64 x - x\<bar> \<le> 2 powi (max (floor_log2 \<bar>x\<bar>) (- 1022) - 52) / 2"
proof -
  define ulp :: real where "ulp = 2 powi (max (floor_log2 \<bar>x\<bar>) (- 1022) - 52)"
  define r where "r = real_of_int (py_round_int (\<bar>x\<bar> / ulp))"
  have pos: "0 < ulp"
    by (simp add: ulp_def)
  have b: "binary64 x = sgn x * r * ulp"
    using assms by (simp add: binary64_def Let_def ulp_def r_def)
  have "\<bar>r - \<bar>x\<bar> / ulp\<bar> \<le> 1 / 2"
    unfolding r_def by (rule py_round_int_near)
  then have "\<bar>r - \<bar>x\<bar> / ulp\<bar> * ulp \<le> 1 / 2 * ulp"
    using pos by (intro mult_right_mono) simp_all
  moreover have "\<bar>r - \<bar>x\<bar> / ulp\<bar> * ulp = \<bar>r * ulp - \<bar>x\<bar>\<bar>"
  proof -
    have "\<bar>r - \<bar>x\<bar> / ulp\<bar> * ulp = \<bar>(r - \<bar>x\<bar> / ulp) * ulp\<bar>"
      using pos by (simp add: abs_mult)
    also have "(r - \<bar>x\<bar> / ulp) * ulp = r * ulp - \<bar>x\<bar>"
      using pos by (simp add: left_diff_distrib)
    finally show ?thesis .
  qed
  moreover have "\<bar>sgn x * r * ulp - x\<bar> = \<bar>r * ulp - \<bar>x\<bar>\<bar>"
    using assms by (cases "0 < x") (simp_all add: sgn_real_def abs_minus_commute)
  ultimately have "\<bar>sgn x * r * ulp - x\<bar> \<le> ulp / 2"
    by linarith
  then have "\<bar>binary64 x - x\<bar> \<le> ulp / 2"
    by (simp only: b)
  then show ?thesis
    by (simp only: ulp_def)
qed


section \<open>The statistics summary\<close>

lemma count_label_length:
  "count_label label messages = length (filter (\<lambda>msg. sentiment msg = label) messages)"
  by (induction messages) (simp_all add: count_label_def)

lemma count_label_le: "count_label label messages \<le> length messages"
  by (simp add: count_label_length)

lemma percent_nonzero:
  "n \<noteq> 0 \<Longrightarrow> percent c n = Inr (py_round (float_mul (binary64 (real c / real n)) 100) 1)"
  by (simp add: percent_def py_truediv_def)

lemma calculate_statistics_Nil:
  "calculate_statistics [] =
     Inr \<lparr>total = 0, positive = 0, negative = 0, neutral = 0,
          positive_percent = 0, negative_percent = 0, neutral_percent = 0\<rparr>"
  by (simp add: calculate_statistics_def)

lemma calculate_statistics_nonempty:
  assumes "messages \<noteq> []"
  shows "calculate_statistics messages =
     Inr \<lparr>total = length messages,
          positive = count_label ''positive'' messages,
          negative = count_label ''negative'' messages,
          neutral = count_label ''neutral'' messages,
          positive_percent =
            py_round (float_mul (binary64
              (real (count_label ''positive'' messages) / real (length messages))) 100) 1,
          negative_percent =
            py_round (float_mul (binary64
              (real (count_label ''negative'' messages) / real (length messages))) 100) 1,
          neutral_percent =
            py_round (float_mul (binary64
              (real (count_label ''neutral'' messages) / real (length messages))) 100) 1\<rparr>"
  using assms by (simp add: calculate_statistics_def percent_nonzero)

lemma label_partition:
  "length messages =
     count_label ''positive'' messages + count_label ''negative'' messages
     + count_label ''neutral'' messages
     + length (filter (\<lambda>msg. sentiment msg \<notin> {''positive'', ''negative'', ''neutral''}) messages)"
  by (induction messages) (auto simp add: count_label_length)

lemma no_other_label_iff:
  "length (filter (\<lambda>msg. sentiment msg \<notin> {''positive'', ''negative'', ''neutral''}) messages) = 0
     \<longleftrightarrow> (\<forall>msg \<in> set messages. sentiment msg \<in> {''positive'', ''negative'', ''neutral''})"
  by (simp add: filter_empty_conv)

lemma py_round_int_of_int: "py_round_int (of_int k) = k"
  by (simp add: py_round_int_def)

lemma py_round_of_int: "py_round (of_int k) n = of_int k"
proof -
  have "of_int k * (10::real) ^ n = of_int (k * 10 ^ n)"
    by simp
  then have "py_round_int (of_int k * 10 ^ n) = k * 10 ^ n"
    by (simp only: py_round_int_of_int)
  then show ?thesis
    by (simp add: py_round_def)
qed

lemma py_round_75: "py_round 75 n = 75"
  using py_round_of_int [of 75 n] by simp

lemma py_round_25: "py_round 25 n = 25"
  using py_round_of_int [of 25 n] by simp

lemma py_round_0: "py_round 0 n = 0"
  using py_round_of_int [of 0 n] by simp

text \<open>The doubles of the percentages of 0, 1 and 3 out of 4 are exact.\<close>

lemma binary64_0: "binary64 0 = 0"
  by (simp add: binary64_def)

lemma float_percent_0: "py_round (float_mul (binary64 0) 100) 1 = 0"
  by (simp add: float_mul_def binary64_0 py_round_0)

lemma percent_0: "n \<noteq> 0 \<Longrightarrow> percent 0 n = Inr 0"
  using float_percent_0 by (simp add: percent_nonzero)

lemma float_percent_1_of_4: "py_round (float_mul (binary64 (1 / 4)) 100) 1 = 25"
  by (simp add: float_mul_def binary64_def floor_log2_def compute_bitlen py_round_int_def
      py_round_def Let_def)

lemma float_percent_3_of_4: "py_round (float_mul (binary64 (3 / 4)) 100) 1 = 75"
  by (simp add: float_mul_def binary64_def floor_log2_def compute_bitlen py_round_int_def
      py_round_def Let_def)

text \<open>The quotient 23/80 is not a double: the nearest double times 100 is the double just
  below 28.75, so the percentage is 28.7, where 28.75 itself would go to 28.8. Likewise
  49 and 51 out of 80.\<close>

lemma binary64_23_of_80: "binary64 (23 / 80) = 2589569785738035 / 9007199254740992"
  by (simp add: binary64_def floor_log2_def compute_bitlen py_round_int_def Let_def)

lemma percent_23_of_80: "percent 23 80 = Inr (287 / 10)"
  by (simp add: percent_def py_truediv_def float_mul_def binary64_def floor_log2_def
      compute_bitlen py_round_int_def py_round_def Let_def)

lemma percent_49_of_80: "percent 49 80 = Inr (613 / 10)"
  by (simp add: percent_def py_truediv_def float_mul_def binary64_def floor_log2_def
      compute_bitlen py_round_int_def py_round_def Let_def)

lemma percent_51_of_80: "percent 51 80 = Inr (637 / 10)"
  by (simp add: percent_def py_truediv_def float_mul_def binary64_def floor_log2_def
      compute_bitlen py_round_int_def py_round_def Let_def)

text \<open>
  Claim C4. For every list of records the summary is returned without error: its total
  is the number of records, each count is the number of records with that label, and on
  a non-empty list each percentage is \<open>round((count / total) * 100, 1)\<close> as the program
  computes it: the quotient and the product are rounded to doubles, and the product is
  rounded to one decimal. The empty list gives the all-zero summary, with no division.
  With 3 positive, 1 negative and 0 neutral records out of 4 the percentages are 75.0,
  25.0 and 0.0.
\<close>

theorem calculate_statistics_summary:
  "\<exists>s. calculate_statistics messages = Inr s
     \<and> total s = length messages
     \<and> positive s = length (filter (\<lambda>msg. sentiment msg = ''positive'') messages)
     \<and> negative s = length (filter (\<lambda>msg. sentiment msg = ''negative'') messages)
     \<and> neutral s = length (filter (\<lambda>msg. sentiment msg = ''neutral'') messages)
     \<and> (messages \<noteq> [] \<longrightarrow>
          positive_percent s
            = py_round (float_mul (binary64 (real (positive s) / real (total s))) 100) 1
          \<and> negative_percent s
            = py_round (float_mul (binary64 (real (negative s) / real (total s))) 100) 1
          \<and> neutral_percent s
            = py_round (float_mul (binary64 (real (neutral s) / real (total s))) 100) 1)
     \<and> (messages = [] \<longrightarrow>
          s = \<lparr>total = 0, positive = 0, negative = 0, neutral = 0,
               positive_percent = 0, negative_percent = 0, neutral_percent = 0\<rparr>)
     \<and> (total s = 4 \<and> positive s = 3 \<and> negative s = 1 \<and> neutral s = 0 \<longrightarrow>
          positive_percent s = 75 \<and> negative_percent s = 25 \<and> neutral_percent s = 0)"
proof (cases "messages = []")
  case True
  then show ?thesis
    by (simp add: calculate_statistics_Nil)
next
  case False
  define s where
    "s = \<lparr>total = length messages,
          positive = count_label ''positive'' messages,
          negative = count_label ''negative'' messages,
          neutral = count_label ''neutral'' messages,
          positive_percent = py_round (float_mul (binary64
            (real (count_label ''positive'' messages) / real (length messages))) 100) 1,
          negative_percent = py_round (float_mul (binary64
            (real (count_label ''negative'' messages) / real (length messages))) 100) 1,
          neutral_percent = py_round (float_mul (binary64
            (real (count_label ''neutral'' messages) / real (length messages))) 100) 1\<rparr>"
  have ret: "calculate_statistics messages = Inr s"
    using False by (simp add: calculate_statistics_nonempty s_def)
  have fields: "total s = length messages"
    "positive s = length (filter (\<lambda>msg. sentiment msg = ''positive'') messages)"
    "negative s = length (filter (\<lambda>msg. sentiment msg = ''negative'') messages)"
    "neutral s = length (filter (\<lambda>msg. sentiment msg = ''neutral'') messages)"
    by (simp_all add: s_def count_label_length)
  have percents:
    "positive_percent s
       = py_round (float_mul (binary64 (real (positive s) / real (total s))) 100) 1"
    "negative_percent s
       = py_round (float_mul (binary64 (real (negative s) / real (total s))) 100) 1"
    "neutral_percent s
       = py_round (float_mul (binary64 (real (neutral s) / real (total s))) 100) 1"
    by (simp_all add: s_def)
  have example: "positive_percent s = 75 \<and> negative_percent s = 25 \<and> neutral_percent s = 0"
    if "total s = 4 \<and> positive s = 3 \<and> negative s = 1 \<and> neutral s = 0"
    using that float_percent_3_of_4 float_percent_1_of_4 float_percent_0
    by (simp add: percents)
  show ?thesis
    using False ret fields percents example by blast
qed

theorem calculate_statistics_summary_witness:
  "\<exists>s. calculate_statistics
         [\<lparr>sentiment = ''positive'', timestamp = 10\<rparr>, \<lparr>sentiment = ''positive'', timestamp = 20\<rparr>,
          \<lparr>sentiment = ''negative'', timestamp = 30\<rparr>, \<lparr>sentiment = ''positive'', timestamp = 40\<rparr>]
       = Inr s
     \<and> total s = 4 \<and> positive s = 3 \<and> negative s = 1 \<and> neutral s = 0
     \<and> positive_percent s = 75 \<and> negative_percent s = 25 \<and> neutral_percent s = 0"
  using calculate_statistics_summary
    [of "[\<lparr>sentiment = ''positive'', timestamp = 10\<rparr>, \<lparr>sentiment = ''positive'', timestamp = 20\<rparr>,
          \<lparr>sentiment = ''negative'', timestamp = 30\<rparr>, \<lparr>sentiment = ''positive'', timestamp = 40\<rparr>]"]
  by auto

text \<open>
  Claim C9. For every list of records the total of the summary is the length of the list
  and the three counts add up to at most the total, with equality exactly when every
  record carries one of the three labels: a record with another label is counted in the
  total, which is also the denominator of the quotient that each percentage is computed
  from, and in none of the three counts.
\<close>

theorem calculate_statistics_label_counts:
  "\<exists>s. calculate_statistics messages = Inr s
     \<and> total s = length messages
     \<and> positive s + negative s + neutral s \<le> total s
     \<and> (positive s + negative s + neutral s = total s \<longleftrightarrow>
          (\<forall>msg \<in> set messages. sentiment msg \<in> {''positive'', ''negative'', ''neutral''}))
     \<and> total s = positive s + negative s + neutral s
          + length (filter (\<lambda>msg. sentiment msg \<notin> {''positive'', ''negative'', ''neutral''}) messages)
     \<and> (messages \<noteq> [] \<longrightarrow>
          positive_percent s
            = py_round (float_mul (binary64 (real (positive s) / real (length messages))) 100) 1
          \<and> negative_percent s
            = py_round (float_mul (binary64 (real (negative s) / real (length messages))) 100) 1
          \<and> neutral_percent s
            = py_round (float_mul (binary64 (real (neutral s) / real (length messages))) 100) 1)"
proof (cases "messages = []")
  case True
  then show ?thesis
    by (simp add: calculate_statistics_Nil)
next
  case False
  have eq: "(count_label ''positive'' messages + count_label ''negative'' messages
        + count_label ''neutral'' messages = length messages)
      \<longleftrightarrow> (\<forall>msg \<in> set messages. sentiment msg \<in> {''positive'', ''negative'', ''neutral''})"
    using label_partition [of messages] no_other_label_iff [of messages] by linarith
  have le: "count_label ''positive'' messages + count_label ''negative'' messages
        + count_label ''neutral'' messages \<le> length messages"
    using label_partition [of messages] by linarith
  define s where
    "s = \<lparr>total = length messages,
          positive = count_label ''positive'' messages,
          negative = count_label ''negative'' messages,
          neutral = count_label ''neutral'' messages,
          positive_percent = py_round (float_mul (binary64
            (real (count_label ''positive'' messages) / real (length messages))) 100) 1,
          negative_percent = py_round (float_mul (binary64
            (real (count_label ''negative'' messages) / real (length messages))) 100) 1,
          neutral_percent = py_round (float_mul (binary64
            (real (count_label ''neutral'' messages) / real (length messages))) 100) 1\<rparr>"
  have ret: "calculate_statistics messages = Inr s"
    using False by (simp add: calculate_statistics_nonempty s_def)
  have tot: "total s = length messages"
    by (simp add: s_def)
  have sum: "positive s + negative s + neutral s
      = count_label ''positive'' messages + count_label ''negative'' messages
        + count_label ''neutral'' messages"
    by (simp add: s_def)
  have percents:
    "positive_percent s
       = py_round (float_mul (binary64 (real (positive s) / real (length messages))) 100) 1"
    "negative_percent s
       = py_round (float_mul (binary64 (real (negative s) / real (length messages))) 100) 1"
    "neutral_percent s
       = py_round (float_mul (binary64 (real (neutral s) / real (length messages))) 100) 1"
    by (simp_all add: s_def)
  have part: "total s = positive s + negative s + neutral s
      + length (filter (\<lambda>msg. sentiment msg \<notin> {''positive'', ''negative'', ''neutral''}) messages)"
    using label_partition [of messages] by (simp only: tot sum)
  show ?thesis
    using ret tot percents part eq le
    by (intro exI [of _ s] conjI impI) (simp_all only: tot sum)
qed

theorem calculate_statistics_label_counts_witness:
  "\<exists>s. calculate_statistics
         [\<lparr>sentiment = ''positive'', timestamp = 10\<rparr>, \<lparr>sentiment = ''angry'', timestamp = 20\<rparr>,
          \<lparr>sentiment = ''neutral'', timestamp = 30\<rparr>]
       = Inr s
     \<and> total s = 3 \<and> positive s + negative s + neutral s = 2"
  using calculate_statistics_label_counts
    [of "[\<lparr>sentiment = ''positive'', timestamp = 10\<rparr>, \<lparr>sentiment = ''angry'', timestamp = 20\<rparr>,
          \<lparr>sentiment = ''neutral'', timestamp = 30\<rparr>]"]
  by auto


section \<open>The timeline\<close>

lemma dom_zero_counts: "dom zero_counts = {''positive'', ''negative'', ''neutral''}"
  by (auto simp add: zero_counts_def)

lemma day_dicts_ok_empty: "day_dicts_ok Map.empty"
  by (simp add: day_dicts_ok_def)

lemma day_count_empty: "day_count Map.empty d l = 0"
  by (simp add: day_count_def)

lemma strftime_date_minus_days:
  "strftime_date (now - timedelta_days k) = strftime_date now - k"
  by (simp add: strftime_date_def timedelta_days_def)

lemma sentiment_data_lookup:
  assumes "day_dicts_ok daily" and "l \<in> {''positive'', ''negative'', ''neutral''}"
  shows "(case daily d of None \<Rightarrow> zero_counts | Some c \<Rightarrow> c) l = Some (day_count daily d l)"
proof (cases "daily d")
  case None
  then show ?thesis
    using assms(2) by (auto simp add: day_count_def zero_counts_def)
next
  case (Some c)
  then have "dom c = {''positive'', ''negative'', ''neutral''}"
    using assms(1) by (simp add: day_dicts_ok_def)
  then have "l \<in> dom c"
    using assms(2) by simp
  then obtain n where "c l = Some n"
    by blast
  then show ?thesis
    using Some by (simp add: day_count_def)
qed

text \<open>One round of the grouping loop: a row with one of the three labels adds one to
  the counter of its day and label and keeps the invariant; a row with another label
  raises \<open>KeyError\<close>.\<close>

lemma group_by_date_Cons_valid:
  assumes ok: "day_dicts_ok daily"
    and valid: "sentiment msg \<in> {''positive'', ''negative'', ''neutral''}"
  shows "\<exists>daily2. group_by_date daily (msg # messages) = group_by_date daily2 messages
     \<and> day_dicts_ok daily2
     \<and> (\<forall>d l. day_count daily2 d l =
           day_count daily d l
           + (if strftime_date (timestamp msg) = d \<and> sentiment msg = l then 1 else 0))"
proof -
  define date_key where "date_key = strftime_date (timestamp msg)"
  define daily1 where
    "daily1 = (if daily date_key = None then daily(date_key \<mapsto> zero_counts) else daily)"
  have ok1: "day_dicts_ok daily1"
    using ok by (simp add: daily1_def day_dicts_ok_def dom_zero_counts)
  have same1: "day_count daily1 d l = day_count daily d l" for d l
    by (auto simp add: daily1_def day_count_def zero_counts_def)
  obtain day_counts where dc: "daily1 date_key = Some day_counts"
    by (cases "daily date_key") (auto simp add: daily1_def)
  then have dom_dc: "dom day_counts = {''positive'', ''negative'', ''neutral''}"
    using ok1 by (simp add: day_dicts_ok_def)
  then have "sentiment msg \<in> dom day_counts"
    using valid by simp
  then obtain n where n: "day_counts (sentiment msg) = Some n"
    by blast
  define daily2 where "daily2 = daily1(date_key \<mapsto> day_counts(sentiment msg \<mapsto> n + 1))"
  have step: "group_by_date daily (msg # messages) = group_by_date daily2 messages"
    using dc n
    by (simp add: Let_def date_key_def [symmetric] daily1_def [symmetric] daily2_def)
  have "dom (day_counts(sentiment msg \<mapsto> n + 1)) = {''positive'', ''negative'', ''neutral''}"
    using dom_dc valid by auto
  then have ok2: "day_dicts_ok daily2"
    using ok1 by (simp add: daily2_def day_dicts_ok_def)
  have "day_count daily2 d l =
      day_count daily1 d l + (if date_key = d \<and> sentiment msg = l then 1 else 0)" for d l
    using dc n by (auto simp add: daily2_def day_count_def)
  then have "\<forall>d l. day_count daily2 d l =
      day_count daily d l
      + (if strftime_date (timestamp msg) = d \<and> sentiment msg = l then 1 else 0)"
    by (simp add: same1 date_key_def)
  with step ok2 show ?thesis
    by blast
qed

lemma group_by_date_Cons_invalid:
  assumes ok: "day_dicts_ok daily"
    and invalid: "sentiment msg \<notin> {''positive'', ''negative'', ''neutral''}"
  shows "group_by_date daily (msg # messages) = Inl KeyError"
proof -
  define date_key where "date_key = strftime_date (timestamp msg)"
  define daily1 where
    "daily1 = (if daily date_key = None then daily(date_key \<mapsto> zero_counts) else daily)"
  have ok1: "day_dicts_ok daily1"
    using ok by (simp add: daily1_def day_dicts_ok_def dom_zero_counts)
  obtain day_counts where dc: "daily1 date_key = Some day_counts"
    by (cases "daily date_key") (auto simp add: daily1_def)
  then have "dom day_counts = {''positive'', ''negative'', ''neutral''}"
    using ok1 by (simp add: day_dicts_ok_def)
  then have "sentiment msg \<notin> dom day_counts"
    using invalid by simp
  then have "day_counts (sentiment msg) = None"
    by blast
  then show ?thesis
    using dc by (simp add: Let_def date_key_def [symmetric] daily1_def [symmetric])
qed

text \<open>The whole loop, by induction on the rows with the dictionary generalised.\<close>

lemma group_by_date_valid:
  assumes "day_dicts_ok daily"
    and "\<forall>msg \<in> set messages. sentiment msg \<in> {''positive'', ''negative'', ''neutral''}"
  shows "\<exists>daily'. group_by_date daily messages = Inr daily'
     \<and> day_dicts_ok daily'
     \<and> (\<forall>d l. day_count daily' d l =
           day_count daily d l
           + length (filter (\<lambda>msg. strftime_date (timestamp msg) = d \<and> sentiment msg = l) messages))"
  using assms
proof (induction messages arbitrary: daily)
  case Nil
  then show ?case by simp
next
  case (Cons msg messages)
  then have valid: "sentiment msg \<in> {''positive'', ''negative'', ''neutral''}"
    and rest: "\<forall>m \<in> set messages. sentiment m \<in> {''positive'', ''negative'', ''neutral''}"
    by simp_all
  obtain daily2 where step: "group_by_date daily (msg # messages) = group_by_date daily2 messages"
    and ok2: "day_dicts_ok daily2"
    and c2: "\<forall>d l. day_count daily2 d l =
           day_count daily d l
           + (if strftime_date (timestamp msg) = d \<and> sentiment msg = l then 1 else 0)"
    using group_by_date_Cons_valid [OF Cons.prems(1) valid, of messages] by blast
  obtain daily' where r: "group_by_date daily2 messages = Inr daily'"
    and ok': "day_dicts_ok daily'"
    and c': "\<forall>d l. day_count daily' d l =
           day_count daily2 d l
           + length (filter (\<lambda>m. strftime_date (timestamp m) = d \<and> sentiment m = l) messages)"
    using Cons.IH [OF ok2 rest] by blast
  have "\<forall>d l. day_count daily' d l =
      day_count daily d l
      + length (filter (\<lambda>m. strftime_date (timestamp m) = d \<and> sentiment m = l) (msg # messages))"
    using c2 c' by simp
  with step r ok' show ?case
    by simp
qed

lemma group_by_date_invalid:
  assumes "day_dicts_ok daily"
    and "\<exists>msg \<in> set messages. sentiment msg \<notin> {''positive'', ''negative'', ''neutral''}"
  shows "group_by_date daily messages = Inl KeyError"
  using assms
proof (induction messages arbitrary: daily)
  case Nil
  then show ?case by simp
next
  case (Cons msg messages)
  show ?case
  proof (cases "sentiment msg \<in> {''positive'', ''negative'', ''neutral''}")
    case True
    then have rest: "\<exists>m \<in> set messages. sentiment m \<notin> {''positive'', ''negative'', ''neutral''}"
      using Cons.prems(2) by auto
    obtain daily2 where step: "group_by_date daily (msg # messages) = group_by_date daily2 messages"
      and ok2: "day_dicts_ok daily2"
      using group_by_date_Cons_valid [OF Cons.prems(1) True, of messages] by blast
    show ?thesis
      using step Cons.IH [OF ok2 rest] by simp
  next
    case False
    then show ?thesis
      using group_by_date_Cons_invalid [OF Cons.prems(1)] by blast
  qed
qed

text \<open>The loop over the seven days appends one entry per index to each array, whatever
  the clock reads in each round.\<close>

lemma last_days_ok:
  assumes "day_dicts_ok daily"
  shows "last_days utcnow daily indices arrays =
     Inr \<lparr>dates = dates arrays @ map (loop_date utcnow) indices,
          positive_counts = positive_counts arrays
            @ map (\<lambda>i. day_count daily (loop_date utcnow i) ''positive'') indices,
          negative_counts = negative_counts arrays
            @ map (\<lambda>i. day_count daily (loop_date utcnow i) ''negative'') indices,
          neutral_counts = neutral_counts arrays
            @ map (\<lambda>i. day_count daily (loop_date utcnow i) ''neutral'') indices\<rparr>"
proof (induction indices arbitrary: arrays)
  case Nil
  show ?case by simp
next
  case (Cons i indices)
  show ?case
    by (simp add: Let_def loop_date_def strftime_date_minus_days
        sentiment_data_lookup [OF assms] Cons.IH)
qed

lemma range_7: "[0..<7] = [0, 1, 2, 3, 4, 5, 6]"
  by (simp add: upt_rec)

lemma all_below_7: "(\<forall>i < 7. P i) \<longleftrightarrow> P 0 \<and> P 1 \<and> P 2 \<and> P 3 \<and> P 4 \<and> P 5 \<and> P (6::nat)"
proof -
  have "(\<forall>i < 7. P i) \<longleftrightarrow> (\<forall>i \<in> set [0..<7]. P i)"
    by auto
  then show ?thesis
    by (simp only: range_7) simp
qed

text \<open>A row dated on one of the last seven days lies inside the queried window.\<close>

lemma date_in_window:
  assumes "strftime_date now - 6 \<le> strftime_date t"
  shows "now - timedelta_days 7 \<le> t"
  using assms unfolding strftime_date_def timedelta_days_def by linarith

lemma three_label_split:
  assumes "\<forall>msg \<in> set messages. P msg \<longrightarrow> sentiment msg \<in> {''positive'', ''negative'', ''neutral''}"
  shows "length (filter P messages) =
     length (filter (\<lambda>msg. P msg \<and> sentiment msg = ''positive'') messages)
     + length (filter (\<lambda>msg. P msg \<and> sentiment msg = ''negative'') messages)
     + length (filter (\<lambda>msg. P msg \<and> sentiment msg = ''neutral'') messages)"
  using assms by (induction messages) auto

text \<open>The result of the \<open>try\<close> block in closed form, for every sequence of clock
  readings, and the case of its failure.\<close>

lemma timeline_body_valid:
  assumes "\<forall>msg \<in> set messages. utcnow 0 - timedelta_days 7 \<le> timestamp msg
      \<longrightarrow> sentiment msg \<in> {''positive'', ''negative'', ''neutral''}"
  shows "timeline_body utcnow messages =
     Inr \<lparr>dates = map (loop_date utcnow) [0..<7],
          positive_counts = map (\<lambda>i. length (filter (\<lambda>msg.
              utcnow 0 - timedelta_days 7 \<le> timestamp msg
              \<and> strftime_date (timestamp msg) = loop_date utcnow i
              \<and> sentiment msg = ''positive'') messages)) [0..<7],
          negative_counts = map (\<lambda>i. length (filter (\<lambda>msg.
              utcnow 0 - timedelta_days 7 \<le> timestamp msg
              \<and> strftime_date (timestamp msg) = loop_date utcnow i
              \<and> sentiment msg = ''negative'') messages)) [0..<7],
          neutral_counts = map (\<lambda>i. length (filter (\<lambda>msg.
              utcnow 0 - timedelta_days 7 \<le> timestamp msg
              \<and> strftime_date (timestamp msg) = loop_date utcnow i
              \<and> sentiment msg = ''neutral'') messages)) [0..<7]\<rparr>"
proof -
  define queried where
    "queried = filter (\<lambda>msg. utcnow 0 - timedelta_days 7 \<le> timestamp msg) messages"
  have valid: "\<forall>msg \<in> set queried. sentiment msg \<in> {''positive'', ''negative'', ''neutral''}"
    using assms by (simp add: queried_def)
  obtain daily where g: "group_by_date Map.empty queried = Inr daily"
    and ok: "day_dicts_ok daily"
    and c: "\<forall>d l. day_count daily d l =
        day_count Map.empty d l
        + length (filter (\<lambda>msg. strftime_date (timestamp msg) = d \<and> sentiment msg = l) queried)"
    using group_by_date_valid [OF day_dicts_ok_empty valid] by blast
  have count: "day_count daily d l =
      length (filter (\<lambda>msg. utcnow 0 - timedelta_days 7 \<le> timestamp msg
        \<and> strftime_date (timestamp msg) = d \<and> sentiment msg = l) messages)" for d l
    using c by (simp add: day_count_empty queried_def)
  have "timeline_body utcnow messages =
      last_days utcnow daily [0..<7]
        \<lparr>dates = [], positive_counts = [], negative_counts = [], neutral_counts = []\<rparr>"
    using g by (simp add: timeline_body_def queried_def)
  then show ?thesis
    by (simp only: last_days_ok [OF ok] count timeline_data.simps append_Nil)
qed

lemma timeline_body_invalid:
  assumes "\<exists>msg \<in> set messages. utcnow 0 - timedelta_days 7 \<le> timestamp msg
      \<and> sentiment msg \<notin> {''positive'', ''negative'', ''neutral''}"
  shows "timeline_body utcnow messages = Inl KeyError"
proof -
  have "\<exists>msg \<in> set (filter (\<lambda>msg. utcnow 0 - timedelta_days 7 \<le> timestamp msg) messages).
      sentiment msg \<notin> {''positive'', ''negative'', ''neutral''}"
    using assms by auto
  then show ?thesis
    using group_by_date_invalid [OF day_dicts_ok_empty]
    by (simp add: timeline_body_def)
qed

text \<open>When every reading of the loop falls on the day of reading 0, round \<open>i\<close> computes
  the day \<open>6 - i\<close> days before that day.\<close>

lemma loop_date_same_day:
  assumes "\<forall>i < 7. strftime_date (utcnow (Suc i)) = strftime_date (utcnow 0)"
    and "i < 7"
  shows "loop_date utcnow i = strftime_date (utcnow 0) - (6 - int i)"
  using assms by (simp add: loop_date_def)

text \<open>
  Claim C5. For every list of records carrying the three labels (inside the seven-day
  window) and every reference instant, the timeline is returned with four arrays of
  length exactly 7; the dates are the seven consecutive days ending at the reference
  day, oldest first; at each index the three counts add up to the number of records
  with timestamp at or after the reference minus seven days whose date is the date at
  that index, which is also the number of all records of that date; each count is the
  number of such records with its label; a day without records has three zeros.

  The reference instant is the first reading of the clock, \<open>utcnow 0\<close>. The program
  reads the clock again in each round of the loop; the statement is for the requests in
  which these seven readings fall on the day of the first one. For a request that runs
  across midnight see \<open>timeline_body_midnight_example\<close> below.
\<close>

theorem timeline_seven_days:
  assumes "\<forall>msg \<in> set messages. utcnow 0 - timedelta_days 7 \<le> timestamp msg
      \<longrightarrow> sentiment msg \<in> {''positive'', ''negative'', ''neutral''}"
    and "\<forall>i < 7. strftime_date (utcnow (Suc i)) = strftime_date (utcnow 0)"
  shows "\<exists>data. timeline_body utcnow messages = Inr data
     \<and> analytics_timeline utcnow messages = Success data
     \<and> length (dates data) = 7 \<and> length (positive_counts data) = 7
     \<and> length (negative_counts data) = 7 \<and> length (neutral_counts data) = 7
     \<and> dates data =
         [strftime_date (utcnow 0) - 6, strftime_date (utcnow 0) - 5,
          strftime_date (utcnow 0) - 4, strftime_date (utcnow 0) - 3,
          strftime_date (utcnow 0) - 2, strftime_date (utcnow 0) - 1,
          strftime_date (utcnow 0)]
     \<and> (\<forall>i < 7.
          positive_counts data ! i + negative_counts data ! i + neutral_counts data ! i
            = length (filter (\<lambda>msg. utcnow 0 - timedelta_days 7 \<le> timestamp msg
                \<and> strftime_date (timestamp msg) = dates data ! i) messages)
          \<and> positive_counts data ! i + negative_counts data ! i + neutral_counts data ! i
            = length (filter (\<lambda>msg. strftime_date (timestamp msg) = dates data ! i) messages)
          \<and> positive_counts data ! i
            = length (filter (\<lambda>msg. strftime_date (timestamp msg) = dates data ! i
                \<and> sentiment msg = ''positive'') messages)
          \<and> negative_counts data ! i
            = length (filter (\<lambda>msg. strftime_date (timestamp msg) = dates data ! i
                \<and> sentiment msg = ''negative'') messages)
          \<and> neutral_counts data ! i
            = length (filter (\<lambda>msg. strftime_date (timestamp msg) = dates data ! i
                \<and> sentiment msg = ''neutral'') messages)
          \<and> ((\<forall>msg \<in> set messages. strftime_date (timestamp msg) \<noteq> dates data ! i)
               \<longrightarrow> positive_counts data ! i = 0 \<and> negative_counts data ! i = 0
                 \<and> neutral_counts data ! i = 0))"
proof -
  define now where "now = utcnow 0"
  define day where "day = (\<lambda>i. strftime_date now - (6 - int i))"
  define in_window :: "chat_message \<Rightarrow> bool"
    where "in_window = (\<lambda>msg. now - timedelta_days 7 \<le> timestamp msg)"
  define on_day :: "int \<Rightarrow> chat_message \<Rightarrow> bool"
    where "on_day = (\<lambda>d msg. strftime_date (timestamp msg) = d)"
  define data where
    "data = \<lparr>dates = map (loop_date utcnow) [0..<7],
       positive_counts = map (\<lambda>i. length (filter (\<lambda>msg. in_window msg
         \<and> on_day (loop_date utcnow i) msg \<and> sentiment msg = ''positive'') messages)) [0..<7],
       negative_counts = map (\<lambda>i. length (filter (\<lambda>msg. in_window msg
         \<and> on_day (loop_date utcnow i) msg \<and> sentiment msg = ''negative'') messages)) [0..<7],
       neutral_counts = map (\<lambda>i. length (filter (\<lambda>msg. in_window msg
         \<and> on_day (loop_date utcnow i) msg \<and> sentiment msg = ''neutral'') messages)) [0..<7]\<rparr>"
  have body: "timeline_body utcnow messages = Inr data"
    unfolding data_def in_window_def on_day_def now_def
    by (rule timeline_body_valid [of messages utcnow, OF assms(1)])
  have ld: "loop_date utcnow i = day i" if "i < 7" for i
    using loop_date_same_day [OF assms(2) that] by (simp add: day_def now_def)
  from body have route: "analytics_timeline utcnow messages = Success data"
    by (simp add: analytics_timeline_def)
  have lens: "length (dates data) = 7" "length (positive_counts data) = 7"
    "length (negative_counts data) = 7" "length (neutral_counts data) = 7"
    by (simp_all add: data_def)
  have ds: "dates data =
      [strftime_date now - 6, strftime_date now - 5, strftime_date now - 4,
       strftime_date now - 3, strftime_date now - 2, strftime_date now - 1,
       strftime_date now]"
    using ld [of 0] ld [of 1] ld [of 2] ld [of 3] ld [of 4] ld [of 5] ld [of 6]
    by (simp add: data_def day_def range_7)
  have per_day: "positive_counts data ! i + negative_counts data ! i + neutral_counts data ! i
        = length (filter (\<lambda>msg. in_window msg \<and> strftime_date (timestamp msg) = dates data ! i)
            messages)
      \<and> positive_counts data ! i + negative_counts data ! i + neutral_counts data ! i
        = length (filter (\<lambda>msg. strftime_date (timestamp msg) = dates data ! i) messages)
      \<and> positive_counts data ! i
        = length (filter (\<lambda>msg. strftime_date (timestamp msg) = dates data ! i
            \<and> sentiment msg = ''positive'') messages)
      \<and> negative_counts data ! i
        = length (filter (\<lambda>msg. strftime_date (timestamp msg) = dates data ! i
            \<and> sentiment msg = ''negative'') messages)
      \<and> neutral_counts data ! i
        = length (filter (\<lambda>msg. strftime_date (timestamp msg) = dates data ! i
            \<and> sentiment msg = ''neutral'') messages)
      \<and> ((\<forall>msg \<in> set messages. strftime_date (timestamp msg) \<noteq> dates data ! i)
           \<longrightarrow> positive_counts data ! i = 0 \<and> negative_counts data ! i = 0
             \<and> neutral_counts data ! i = 0)"
    if i: "i < 7" for i
  proof -
    have d: "dates data ! i = day i"
      using i ld by (simp add: data_def)
    have recent: "strftime_date now - 6 \<le> day i"
      by (simp add: day_def)
    have win: "in_window msg" if "on_day (day i) msg" for msg
      using that recent date_in_window [of now "timestamp msg"]
      by (simp add: in_window_def on_day_def)
    have drop: "filter (\<lambda>msg. in_window msg \<and> on_day (day i) msg \<and> Q msg) messages
        = filter (\<lambda>msg. on_day (day i) msg \<and> Q msg) messages" for Q
      using win by (intro filter_cong) auto
    have p: "positive_counts data ! i
        = length (filter (\<lambda>msg. on_day (day i) msg \<and> sentiment msg = ''positive'') messages)"
      using i ld by (simp add: data_def drop)
    have n: "negative_counts data ! i
        = length (filter (\<lambda>msg. on_day (day i) msg \<and> sentiment msg = ''negative'') messages)"
      using i ld by (simp add: data_def drop)
    have u: "neutral_counts data ! i
        = length (filter (\<lambda>msg. on_day (day i) msg \<and> sentiment msg = ''neutral'') messages)"
      using i ld by (simp add: data_def drop)
    have valid: "\<forall>msg \<in> set messages. on_day (day i) msg
        \<longrightarrow> sentiment msg \<in> {''positive'', ''negative'', ''neutral''}"
      using assms(1) win by (simp add: in_window_def now_def)
    have total: "positive_counts data ! i + negative_counts data ! i + neutral_counts data ! i
        = length (filter (on_day (day i)) messages)"
      using three_label_split [OF valid] by (simp add: p n u)
    have same: "filter (\<lambda>msg. in_window msg \<and> on_day (day i) msg) messages
        = filter (on_day (day i)) messages"
      using drop [of "\<lambda>msg. True"] by simp
    have none: "positive_counts data ! i = 0 \<and> negative_counts data ! i = 0
        \<and> neutral_counts data ! i = 0"
      if "\<forall>msg \<in> set messages. strftime_date (timestamp msg) \<noteq> dates data ! i"
    proof -
      have "filter (on_day (day i)) messages = []"
        using that by (simp add: d on_day_def filter_empty_conv)
      then show ?thesis
        using total by simp
    qed
    show ?thesis
      using p n u total same none
      by (simp add: d on_day_def)
  qed
  show ?thesis
    using body route lens ds per_day
    unfolding in_window_def now_def
    by blast
qed

text \<open>The example week, computed by the program, for a request within day 20 and for
  one that runs across the midnight between days 20 and 21: there the loop reads day 20
  in its first two rounds and day 21 in the other five, and day 16 is missing from the
  dates.\<close>

lemma timeline_body_example:
  "timeline_body clock_within_day week_of_messages =
     Inr \<lparr>dates = [14, 15, 16, 17, 18, 19, 20],
          positive_counts = [0, 0, 0, 0, 0, 0, 2],
          negative_counts = [0, 0, 0, 0, 0, 1, 0],
          neutral_counts = [0, 0, 0, 0, 0, 0, 1]\<rparr>"
  by (simp add: timeline_body_def week_of_messages_def clock_within_day_def timedelta_days_def
      strftime_date_def zero_counts_def range_7 Let_def)

lemma timeline_body_midnight_example:
  "timeline_body clock_across_midnight week_of_messages =
     Inr \<lparr>dates = [14, 15, 17, 18, 19, 20, 21],
          positive_counts = [0, 0, 0, 0, 0, 2, 0],
          negative_counts = [0, 0, 0, 0, 1, 0, 0],
          neutral_counts = [0, 0, 0, 0, 0, 1, 0]\<rparr>"
  by (simp add: timeline_body_def week_of_messages_def clock_across_midnight_def
      timedelta_days_def strftime_date_def zero_counts_def range_7 Let_def)

theorem timeline_seven_days_witness:
  "\<exists>data. timeline_body clock_within_day week_of_messages = Inr data
     \<and> analytics_timeline clock_within_day week_of_messages = Success data
     \<and> length (dates data) = 7 \<and> length (positive_counts data) = 7
     \<and> length (negative_counts data) = 7 \<and> length (neutral_counts data) = 7
     \<and> dates data = [14, 15, 16, 17, 18, 19, 20]
     \<and> positive_counts data ! 6 + negative_counts data ! 6 + neutral_counts data ! 6 = 3
     \<and> positive_counts data ! 6 = 2 \<and> negative_counts data ! 5 = 1
     \<and> neutral_counts data ! 0 = 0"
proof -
  have valid: "\<forall>msg \<in> set week_of_messages.
      clock_within_day 0 - timedelta_days 7 \<le> timestamp msg
      \<longrightarrow> sentiment msg \<in> {''positive'', ''negative'', ''neutral''}"
    by (simp add: week_of_messages_def clock_within_day_def timedelta_days_def)
  have same_day: "\<forall>i < 7. strftime_date (clock_within_day (Suc i))
      = strftime_date (clock_within_day 0)"
    by (simp add: all_below_7 clock_within_day_def strftime_date_def)
  have first: "clock_within_day 0 = 1728000005000"
    by (simp add: clock_within_day_def)
  show ?thesis
    using timeline_seven_days [OF valid same_day]
    apply (elim exE conjE)
    subgoal for data
      apply (rule exI [where x = data])
      apply (frule_tac x = 6 in spec, frule_tac x = 5 in spec, drule_tac x = 0 in spec)
      apply (simp add: first week_of_messages_def strftime_date_def timedelta_days_def)
      done
    done
qed


section \<open>Labels outside the three\<close>

lemma calculate_statistics_returns:
  "\<exists>s. calculate_statistics messages = Inr s
     \<and> total s = length messages
     \<and> total s = positive s + negative s + neutral s
          + length (filter (\<lambda>msg. sentiment msg \<notin> {''positive'', ''negative'', ''neutral''}) messages)"
proof (cases "messages = []")
  case True
  then show ?thesis
    by (simp add: calculate_statistics_Nil)
next
  case False
  then show ?thesis
    using label_partition [of messages]
    by (simp add: calculate_statistics_nonempty)
qed

lemma timeline_body_KeyError_iff:
  "timeline_body utcnow messages = Inl KeyError \<longleftrightarrow>
     (\<exists>msg \<in> set messages. utcnow 0 - timedelta_days 7 \<le> timestamp msg
        \<and> sentiment msg \<notin> {''positive'', ''negative'', ''neutral''})"
proof
  assume e: "timeline_body utcnow messages = Inl KeyError"
  show "\<exists>msg \<in> set messages. utcnow 0 - timedelta_days 7 \<le> timestamp msg
      \<and> sentiment msg \<notin> {''positive'', ''negative'', ''neutral''}"
  proof (rule ccontr)
    assume "\<not> ?thesis"
    then have "\<forall>msg \<in> set messages. utcnow 0 - timedelta_days 7 \<le> timestamp msg
        \<longrightarrow> sentiment msg \<in> {''positive'', ''negative'', ''neutral''}"
      by blast
    from timeline_body_valid [of messages utcnow, OF this] e show False
      by simp
  qed
next
  assume "\<exists>msg \<in> set messages. utcnow 0 - timedelta_days 7 \<le> timestamp msg
      \<and> sentiment msg \<notin> {''positive'', ''negative'', ''neutral''}"
  then show "timeline_body utcnow messages = Inl KeyError"
    by (rule timeline_body_invalid)
qed

lemma timeline_body_cases:
  "timeline_body utcnow messages = Inl KeyError
   \<or> (\<exists>data. timeline_body utcnow messages = Inr data)"
  using timeline_body_valid [of messages utcnow] timeline_body_invalid [of messages utcnow]
  by blast

text \<open>
  The label \<open>angry\<close> gets an ordinary reply, an ordinary summary, and, on a record
  outside the window, an ordinary timeline: nothing fails.
\<close>

theorem unknown_label_not_rejected_counterexample:
  "generate_response ascii_lower 8 ''What now'' ''angry''
     = Inr ''Alright! What can I help you with?''
   \<and> calculate_statistics [\<lparr>sentiment = ''angry'', timestamp = 0\<rparr>]
     = Inr \<lparr>total = 1, positive = 0, negative = 0, neutral = 0,
            positive_percent = 0, negative_percent = 0, neutral_percent = 0\<rparr>
   \<and> analytics_timeline clock_within_day [\<lparr>sentiment = ''angry'', timestamp = 0\<rparr>]
     = Success \<lparr>dates = [14, 15, 16, 17, 18, 19, 20],
         positive_counts = [0, 0, 0, 0, 0, 0, 0],
         negative_counts = [0, 0, 0, 0, 0, 0, 0],
         neutral_counts = [0, 0, 0, 0, 0, 0, 0]\<rparr>"
proof -
  have "dict_get responses ''angry'' neutral_responses = neutral_responses"
    by (simp add: response_list_cases)
  moreover have "random_choice 8 neutral_responses = Inr ''Alright! What can I help you with?''"
    by (simp add: random_choice_def neutral_responses_def)
  ultimately have "random_choice 8 (dict_get responses ''angry'' neutral_responses)
      = Inr ''Alright! What can I help you with?''"
    by simp
  then have "generate_response ascii_lower 8 ''What now'' ''angry''
      = Inr ''Alright! What can I help you with?''"
    using what_now_words by (simp add: generate_response_chain lower_what_now)
  moreover have "calculate_statistics [\<lparr>sentiment = ''angry'', timestamp = 0\<rparr>]
      = Inr \<lparr>total = 1, positive = 0, negative = 0, neutral = 0,
            positive_percent = 0, negative_percent = 0, neutral_percent = 0\<rparr>"
    by (simp add: calculate_statistics_def count_label_def percent_0)
  moreover have "analytics_timeline clock_within_day [\<lparr>sentiment = ''angry'', timestamp = 0\<rparr>]
      = Success \<lparr>dates = [14, 15, 16, 17, 18, 19, 20],
         positive_counts = [0, 0, 0, 0, 0, 0, 0],
         negative_counts = [0, 0, 0, 0, 0, 0, 0],
         neutral_counts = [0, 0, 0, 0, 0, 0, 0]\<rparr>"
    by (simp add: analytics_timeline_def timeline_body_def clock_within_day_def
        timedelta_days_def strftime_date_def zero_counts_def range_7 Let_def)
  ultimately show ?thesis
    by (intro conjI)
qed

text \<open>
  Claim C3, as the program behaves. A label other than positive, negative and neutral is
  not rejected by the response synthesizer, which answers as for the label neutral, nor
  by the summary, which counts the record in the total only. Only the timeline fails:
  it raises \<open>KeyError\<close>, reported as the failure response with status 500, exactly when
  a record inside the seven-day window carries such a label. The window starts seven
  days before the first reading of the clock; the later readings play no part.
\<close>

theorem unknown_label_handling:
  assumes "label \<notin> {''positive'', ''negative'', ''neutral''}"
  shows "(\<exists>r. generate_response lower rnd message label = Inr r
          \<and> generate_response lower rnd message ''neutral'' = Inr r)
     \<and> (\<exists>s. calculate_statistics messages = Inr s
          \<and> total s = length messages
          \<and> total s = positive s + negative s + neutral s
               + length (filter (\<lambda>msg. sentiment msg
                   \<notin> {''positive'', ''negative'', ''neutral''}) messages))
     \<and> ((\<exists>msg \<in> set messages. sentiment msg = label
            \<and> utcnow 0 - timedelta_days 7 \<le> timestamp msg)
          \<longrightarrow> timeline_body utcnow messages = Inl KeyError
            \<and> analytics_timeline utcnow messages = Failure ''Failed to load timeline data'' 500)
     \<and> (timeline_body utcnow messages = Inl KeyError \<longleftrightarrow>
          (\<exists>msg \<in> set messages. utcnow 0 - timedelta_days 7 \<le> timestamp msg
             \<and> sentiment msg \<notin> {''positive'', ''negative'', ''neutral''}))
     \<and> (timeline_body utcnow messages = Inl KeyError
          \<or> (\<exists>data. timeline_body utcnow messages = Inr data
                \<and> analytics_timeline utcnow messages = Success data))"
proof -
  have l: "dict_get responses label neutral_responses = neutral_responses"
    using assms by (simp add: response_list_cases)
  have n: "dict_get responses ''neutral'' neutral_responses = neutral_responses"
    by (simp add: response_list_cases)
  obtain base where b: "random_choice rnd neutral_responses = Inr base"
    using generate_response_base [of rnd label] l by auto
  have respond: "\<exists>r. generate_response lower rnd message label = Inr r
      \<and> generate_response lower rnd message ''neutral'' = Inr r"
    using b by (simp add: generate_response_chain l n)
  have fails: "(\<exists>msg \<in> set messages. sentiment msg = label
        \<and> utcnow 0 - timedelta_days 7 \<le> timestamp msg)
      \<longrightarrow> timeline_body utcnow messages = Inl KeyError
        \<and> analytics_timeline utcnow messages = Failure ''Failed to load timeline data'' 500"
  proof
    assume that: "\<exists>msg \<in> set messages. sentiment msg = label
        \<and> utcnow 0 - timedelta_days 7 \<le> timestamp msg"
    have "\<exists>msg \<in> set messages. utcnow 0 - timedelta_days 7 \<le> timestamp msg
        \<and> sentiment msg \<notin> {''positive'', ''negative'', ''neutral''}"
      using that assms by blast
    then have "timeline_body utcnow messages = Inl KeyError"
      by (rule timeline_body_invalid)
    then show "timeline_body utcnow messages = Inl KeyError
        \<and> analytics_timeline utcnow messages = Failure ''Failed to load timeline data'' 500"
      by (simp add: analytics_timeline_def)
  qed
  have either: "timeline_body utcnow messages = Inl KeyError
      \<or> (\<exists>data. timeline_body utcnow messages = Inr data
            \<and> analytics_timeline utcnow messages = Success data)"
    using timeline_body_cases [of utcnow messages]
    by (auto simp add: analytics_timeline_def)
  show ?thesis
    using respond calculate_statistics_returns [of messages] fails
      timeline_body_KeyError_iff [of utcnow messages] either
    by (intro conjI) assumption+
qed

theorem unknown_label_handling_witness:
  "(\<exists>r. generate_response ascii_lower 8 ''What now'' ''furious'' = Inr r
       \<and> generate_response ascii_lower 8 ''What now'' ''neutral'' = Inr r)
   \<and> (\<exists>s. calculate_statistics week_of_messages = Inr s
        \<and> total s = 7 \<and> positive s + negative s + neutral s = 5)
   \<and> timeline_body clock_one_tick_earlier week_of_messages = Inl KeyError
   \<and> analytics_timeline clock_one_tick_earlier week_of_messages
       = Failure ''Failed to load timeline data'' 500
   \<and> (\<exists>data. timeline_body clock_within_day week_of_messages = Inr data)"
proof -
  have a: "''furious'' \<notin> {''positive'', ''negative'', ''neutral''}"
    by simp
  note t = unknown_label_handling [OF a, of ascii_lower 8 "''What now''" week_of_messages]
  have in_window: "\<exists>msg \<in> set week_of_messages. sentiment msg = ''furious''
      \<and> clock_one_tick_earlier 0 - timedelta_days 7 \<le> timestamp msg"
    by (simp add: week_of_messages_def clock_one_tick_earlier_def timedelta_days_def)
  have outside: "\<not> (\<exists>msg \<in> set week_of_messages.
      clock_within_day 0 - timedelta_days 7 \<le> timestamp msg
      \<and> sentiment msg \<notin> {''positive'', ''negative'', ''neutral''})"
    by (simp add: week_of_messages_def clock_within_day_def timedelta_days_def)
  have stats: "\<exists>s. calculate_statistics week_of_messages = Inr s
      \<and> total s = 7 \<and> positive s + negative s + neutral s = 5"
    using t [of clock_within_day, THEN conjunct2, THEN conjunct1]
    by (auto simp add: week_of_messages_def)
  have fail: "timeline_body clock_one_tick_earlier week_of_messages = Inl KeyError
      \<and> analytics_timeline clock_one_tick_earlier week_of_messages
        = Failure ''Failed to load timeline data'' 500"
    using t [of clock_one_tick_earlier, THEN conjunct2, THEN conjunct2, THEN conjunct1]
      in_window
    by (rule mp)
  have ok: "\<exists>data. timeline_body clock_within_day week_of_messages = Inr data"
    using t [of clock_within_day, THEN conjunct2, THEN conjunct2, THEN conjunct2] outside
    by blast
  show ?thesis
    using t [of clock_within_day, THEN conjunct1] stats fail ok
    by (intro conjI) (assumption | erule conjunct1 | erule conjunct2)+
qed


section \<open>The score\<close>

text \<open>Rounding never leaves an interval with integer bounds, and \<open>round(x, n)\<close> is a
  whole number of \<open>10 ^ n\<close>-ths.\<close>

lemma py_round_int_le: "y \<le> of_int N \<Longrightarrow> py_round_int y \<le> N"
  unfolding py_round_int_def Let_def by (auto; linarith)

lemma py_round_int_ge: "of_int N \<le> y \<Longrightarrow> N \<le> py_round_int y"
  unfolding py_round_int_def Let_def by (auto; linarith)

lemma py_round_bounds:
  assumes "- 1 \<le> x" and "x \<le> 1"
  shows "- 1 \<le> py_round x n \<and> py_round x n \<le> 1"
proof -
  have up: "x * 10 ^ n \<le> of_int (10 ^ n)"
    using assms(2) by (simp add: mult_left_le_one_le)
  have "(- 1) * 10 ^ n \<le> x * (10::real) ^ n"
    using assms(1) by (intro mult_right_mono) simp_all
  then have lo: "of_int (- (10 ^ n)) \<le> x * 10 ^ n"
    by simp
  have "real_of_int (py_round_int (x * 10 ^ n)) \<le> real_of_int (10 ^ n)"
    using py_round_int_le [OF up] by (simp only: of_int_le_iff)
  then have hi: "real_of_int (py_round_int (x * 10 ^ n)) \<le> 10 ^ n"
    by simp
  have "real_of_int (- (10 ^ n)) \<le> real_of_int (py_round_int (x * 10 ^ n))"
    using py_round_int_ge [OF lo] by (simp only: of_int_le_iff)
  then have "- (10 ^ n) \<le> real_of_int (py_round_int (x * 10 ^ n))"
    by simp
  with hi have "real_of_int (py_round_int (x * 10 ^ n)) \<le> 10 ^ n
      \<and> - (10 ^ n) \<le> real_of_int (py_round_int (x * 10 ^ n))"
    by simp
  then show ?thesis
    by (simp add: py_round_def divide_le_eq le_divide_eq)
qed

lemma py_round_decimal: "\<exists>k::int. py_round x n = of_int k / 10 ^ n"
  by (auto simp add: py_round_def)

lemma clamp_range: "- 1 \<le> clamp x \<and> clamp x \<le> 1"
  by (simp add: clamp_def)

lemma polarity_scorer_range:
  "- 1 \<le> polarity_scorer lexicon negations intensifiers text
   \<and> polarity_scorer lexicon negations intensifiers text \<le> 1"
  by (simp add: polarity_scorer_def Let_def clamp_range)

lemma contributions_unrecognized:
  "\<forall>t \<in> set ts. lexicon t = None \<Longrightarrow> contributions lexicon negations intensifiers previous ts = []"
  by (induction ts arbitrary: previous) simp_all

lemma split_words_spaces: "\<forall>c \<in> set cs. is_space c \<Longrightarrow> split_words [] cs = []"
  by (induction cs) simp_all

lemma tokenize_spaces: "\<forall>c \<in> set text. is_space c \<Longrightarrow> tokenize text = []"
  by (simp add: tokenize_def split_words_spaces)

lemma polarity_scorer_unrecognized:
  "\<forall>t \<in> set (tokenize text). lexicon t = None
     \<Longrightarrow> polarity_scorer lexicon negations intensifiers text = 0"
  by (simp add: polarity_scorer_def contributions_unrecognized)

lemma analyze_sentiment_zero:
  "textblob_polarity text = 0 \<Longrightarrow> analyze_sentiment textblob_polarity text = (''neutral'', 0)"
  by (simp add: analyze_sentiment_def Let_def classify_def py_round_0)

text \<open>
  Claim C6, for the scorer modelled from the specification. For every text the score
  returned by \<open>analyze_sentiment\<close> lies between -1 and 1 and is a whole number of
  ten-thousandths; for a text without recognized tokens, and so for an empty or
  whitespace-only text, the score is exactly 0 and the label is neutral. No error value
  exists on this path.
\<close>

theorem analyze_sentiment_score_range:
  "- 1 \<le> snd (analyze_sentiment (polarity_scorer lexicon negations intensifiers) text)
   \<and> snd (analyze_sentiment (polarity_scorer lexicon negations intensifiers) text) \<le> 1
   \<and> (\<exists>k::int. snd (analyze_sentiment (polarity_scorer lexicon negations intensifiers) text)
          = of_int k / 10 ^ 4)
   \<and> ((\<forall>t \<in> set (tokenize text). lexicon t = None)
        \<longrightarrow> analyze_sentiment (polarity_scorer lexicon negations intensifiers) text
              = (''neutral'', 0))
   \<and> ((\<forall>c \<in> set text. is_space c)
        \<longrightarrow> analyze_sentiment (polarity_scorer lexicon negations intensifiers) text
              = (''neutral'', 0))"
proof -
  let ?p = "polarity_scorer lexicon negations intensifiers"
  have score: "snd (analyze_sentiment ?p text) = py_round (?p text) 4"
    by (simp add: analyze_sentiment_def Let_def)
  have range: "- 1 \<le> py_round (?p text) 4 \<and> py_round (?p text) 4 \<le> 1"
    using polarity_scorer_range [of lexicon negations intensifiers "text"]
    by (intro py_round_bounds) simp_all
  have decimal: "\<exists>k::int. py_round (?p text) 4 = of_int k / 10 ^ 4"
    by (rule py_round_decimal)
  have none: "analyze_sentiment ?p text = (''neutral'', 0)"
    if "\<forall>t \<in> set (tokenize text). lexicon t = None"
    using that by (intro analyze_sentiment_zero polarity_scorer_unrecognized)
  have blank: "analyze_sentiment ?p text = (''neutral'', 0)"
    if "\<forall>c \<in> set text. is_space c"
    using that by (intro none) (simp add: tokenize_spaces)
  show ?thesis
    unfolding score using range decimal none blank by blast
qed

theorem analyze_sentiment_score_range_witness:
  "analyze_sentiment (polarity_scorer example_lexicon [''not'', ''never''] example_intensifiers) ''   ''
     = (''neutral'', 0)
   \<and> analyze_sentiment (polarity_scorer example_lexicon [''not'', ''never''] example_intensifiers) ''so so''
     = (''neutral'', 0)
   \<and> snd (analyze_sentiment (polarity_scorer example_lexicon [''not'', ''never''] example_intensifiers)
        ''extremely great'') \<le> 1"
proof -
  note t = analyze_sentiment_score_range [of example_lexicon "[''not'', ''never'']" example_intensifiers]
  have blank: "\<forall>c \<in> set ''   ''. is_space c"
    by (simp add: is_space_def)
  have words: "tokenize ''so so'' = [''so'', ''so'']"
    by (simp add: tokenize_def is_space_def)
  have unknown: "\<forall>t \<in> set (tokenize ''so so''). example_lexicon t = None"
    by (simp add: words example_lexicon_def)
  show ?thesis
    using t [of "''   ''"] t [of "''so so''"] t [of "''extremely great''"] blank unknown
    by (intro conjI) (erule conjE impE, assumption?)+
qed

end
